theory Spec2Isabelle
  imports Complex_Main
begin

section \<open>Python values\<close>

text \<open>
  The agent is dynamically typed: its state, the decisions parsed from the model's
  replies and the repository records are Python dicts, lists, strings and numbers.
  They are embedded as one datatype of JSON-like values. A dict is an association
  list with distinct keys in insertion order. Python's \<open>==\<close> is HOL equality here;
  the two differ only between numbers of different types (\<open>1 == 1.0 == True\<close>), and
  what the agent compares are action names and URLs.
\<close>

datatype json =
    JNull
  | JBool bool
  | JInt int
  | JFloat real
  | JStr string
  | JArr "json list"
  | JObj "(string \<times> json) list"

text \<open>Python truthiness (\<open>if x:\<close>, \<open>not x\<close>, \<open>x or y\<close>).\<close>

fun truthy :: "json \<Rightarrow> bool" where
  "truthy JNull = False"
| "truthy (JBool b) = b"
| "truthy (JInt i) = (i \<noteq> 0)"
| "truthy (JFloat r) = (r \<noteq> 0)"
| "truthy (JStr s) = (s \<noteq> [])"
| "truthy (JArr xs) = (xs \<noteq> [])"
| "truthy (JObj kvs) = (kvs \<noteq> [])"

text \<open>\<open>d.get(k, default)\<close> and \<open>k in d\<close> on a dict.\<close>

definition dict_get :: "(string \<times> json) list \<Rightarrow> string \<Rightarrow> json \<Rightarrow> json" where
  "dict_get d k dflt = (case map_of d k of None \<Rightarrow> dflt | Some v \<Rightarrow> v)"

definition has_key :: "(string \<times> json) list \<Rightarrow> string \<Rightarrow> bool" where
  "has_key d k = (map_of d k \<noteq> None)"

text \<open>\<open>d[k] = v\<close>: an existing key keeps its position, a new key goes last.\<close>

fun dict_set :: "(string \<times> json) list \<Rightarrow> string \<Rightarrow> json \<Rightarrow> (string \<times> json) list" where
  "dict_set [] k v = [(k, v)]"
| "dict_set ((k', v') # d) k v = (if k' = k then (k, v) # d else (k', v') # dict_set d k v)"

text \<open>\<open>x or y\<close>.\<close>

definition py_or :: "json \<Rightarrow> json \<Rightarrow> json" where
  "py_or x y = (if truthy x then x else y)"

section \<open>Scoring (tools.py, GithubTools.calculate_repo_score)\<close>

text \<open>
  \<open>x + 1\<close> for a Python value: defined on numbers (a bool counts as 0 or 1), a
  TypeError (None here) on anything else.
\<close>

fun plus_one :: "json \<Rightarrow> real option" where
  "plus_one (JInt i) = Some (real_of_int i + 1)"
| "plus_one (JFloat r) = Some (r + 1)"
| "plus_one (JBool b) = Some (if b then 2 else 1)"
| "plus_one _ = None"

text \<open>
  \<open>math.log(x)\<close>: a ValueError (None here) unless \<open>x\<close> is positive. HOL's \<open>ln\<close> is
  total (\<open>ln 0 = 0\<close>), so the domain check is written out.
\<close>

definition math_log :: "real \<Rightarrow> real option" where
  "math_log x = (if 0 < x then Some (ln x) else None)"

text \<open>The step function applied to \<open>days_diff\<close> (lines 146 to 155).\<close>

definition recency_of_days :: "int \<Rightarrow> real" where
  "recency_of_days days_diff =
     (if days_diff \<le> 30 then 1.0
      else if days_diff \<le> 180 then 0.8
      else if days_diff \<le> 365 then 0.5
      else if days_diff \<le> 730 then 0.2
      else 0.05)"

text \<open>
  The clock and the date parser belong to the Python library. They enter as the
  parameter \<open>days_since\<close>: \<open>days_since p\<close> is
  \<open>(datetime.utcnow() - datetime.strptime(p, "%Y-%m-%dT%H:%M:%SZ")).days\<close>, and None when
  \<open>strptime\<close> raises ValueError. A truthy \<open>pushed_at\<close> that is not a string makes
  \<open>strptime\<close> raise TypeError.
\<close>

definition recency_score :: "(string \<Rightarrow> int option) \<Rightarrow> json \<Rightarrow> real option" where
  "recency_score days_since pushed_at =
     (if truthy pushed_at then
        (case pushed_at of
           JStr p \<Rightarrow> (case days_since p of None \<Rightarrow> None | Some days_diff \<Rightarrow> Some (recency_of_days days_diff))
         | _ \<Rightarrow> None)
      else Some 0.1)"

text \<open>
  The body of the \<open>try\<close> block; None stands for any exception raised inside it
  (\<open>repo.get\<close> on a value that is no dict, \<open>strptime\<close>, \<open>+\<close>, \<open>math.log\<close>).
\<close>

definition score_body :: "(string \<Rightarrow> int option) \<Rightarrow> json \<Rightarrow> real option" where
  "score_body days_since repo =
     (case repo of
        JObj d \<Rightarrow>
          (let stars = py_or (dict_get d ''stars'' (JInt 0)) (dict_get d ''stargazers_count'' (JInt 0));
               forks = py_or (dict_get d ''forks'' (JInt 0)) (dict_get d ''forks_count'' (JInt 0));
               pushed_at = dict_get d ''pushed_at'' (JStr [])
           in case recency_score days_since pushed_at of
                None \<Rightarrow> None
              | Some recency \<Rightarrow>
                  (case Option.bind (plus_one stars) math_log of
                     None \<Rightarrow> None
                   | Some ls \<Rightarrow>
                       (case Option.bind (plus_one forks) math_log of
                          None \<Rightarrow> None
                        | Some lf \<Rightarrow> Some ((0.7 * ls + 0.3 * lf) * recency))))
      | _ \<Rightarrow> None)"

text \<open>\<open>except Exception: return 0.0\<close>.\<close>

definition calculate_repo_score :: "(string \<Rightarrow> int option) \<Rightarrow> json \<Rightarrow> real" where
  "calculate_repo_score days_since repo =
     (case score_body days_since repo of None \<Rightarrow> 0.0 | Some score \<Rightarrow> score)"

text \<open>
  The logarithm is not computable. Its defining equation is taken out of the code
  equations, so that evaluating an example leaves the terms \<open>ln x\<close> as they are.
\<close>

declare raw_ln_real_def [code del]

section \<open>Response Interpreter (agent.py, \<open>_try_parse_json_from_llm_response\<close>)\<close>

subsection \<open>String operations and the regular expressions of the pipeline\<close>

definition starts_with :: "string \<Rightarrow> string \<Rightarrow> bool" where
  "starts_with p s = (take (length p) s = p)"

text \<open>\<open>s.replace(old, new)\<close> for a non-empty \<open>old\<close>: left to right, without overlaps.\<close>

fun replace_all :: "string \<Rightarrow> string \<Rightarrow> string \<Rightarrow> string" where
  "replace_all old new [] = []"
| "replace_all old new (c # cs) =
     (if old \<noteq> [] \<and> starts_with old (c # cs)
      then new @ replace_all old new (drop (length old - 1) cs)
      else c # replace_all old new cs)"

text \<open>
  \<open>\s\<close> of \<open>re\<close> on a \<open>str\<close>, for the code points below 256 that a \<open>char\<close> holds: tab,
  line feed, vertical tab, form feed, carriage return, the four separators 0x1C to
  0x1F, space, next line (0x85) and no-break space (0xA0).
\<close>

definition is_space :: "char \<Rightarrow> bool" where
  "is_space c =
     (let n = (of_char c :: nat)
      in (9 \<le> n \<and> n \<le> 13) \<or> (28 \<le> n \<and> n \<le> 32) \<or> n = 133 \<or> n = 160)"

text \<open>
  Method 2, \<open>re.search(r'(\{.*\})', text, re.DOTALL)\<close>: from the first opening brace to
  the last closing brace behind it.
\<close>

definition greedy_brace_span :: "string \<Rightarrow> string option" where
  "greedy_brace_span s =
     (case dropWhile (\<lambda>c. c \<noteq> CHR ''{'') s of
        [] \<Rightarrow> None
      | b # rest \<Rightarrow>
          (let inner = rev (dropWhile (\<lambda>c. c \<noteq> CHR ''}'') (rev rest))
           in if inner = [] then None else Some (b # inner)))"

text \<open>The positions at which a literal occurs in a text.\<close>

definition literal_positions :: "string \<Rightarrow> string \<Rightarrow> nat list" where
  "literal_positions lit s = filter (\<lambda>k. starts_with lit (drop k s)) [0..<length s]"

text \<open>
  Method 3, \<open>re.search(r'(\{[^{]*"action"[^}]*\})', text, re.DOTALL)\<close>, tried at one
  opening brace (\<open>rest\<close> is the text behind it): \<open>[^{]*\<close> is greedy, so the last
  occurrence of the quoted key in the brace-free run is preferred, backtracking to
  earlier ones while no closing brace follows; \<open>[^}]*\<close> then stops at the first closing
  brace.
\<close>

definition action_span_here :: "string \<Rightarrow> string option" where
  \<open>action_span_here rest =
     (let run = takeWhile (\<lambda>c. c \<noteq> CHR ''{'') rest;
          ks = rev (literal_positions ''"action"'' run)
      in case filter (\<lambda>k. CHR ''}'' \<in> set (drop (k + 8) rest)) ks of
           [] \<Rightarrow> None
         | k # _ \<Rightarrow>
             Some (CHR ''{'' # take (k + 8) rest
                     @ takeWhile (\<lambda>c. c \<noteq> CHR ''}'') (drop (k + 8) rest) @ ''}''))\<close>

text \<open>\<open>re.search\<close> tries the start positions from the left.\<close>

fun action_span :: "string \<Rightarrow> string option" where
  "action_span [] = None"
| "action_span (c # cs) =
     (if c = CHR ''{''
      then (case action_span_here cs of Some m \<Rightarrow> Some m | None \<Rightarrow> action_span cs)
      else action_span cs)"

text \<open>
  Method 5, \<open>"key"\s*:\s*"([^"]+)"\<close> behind one occurrence of the quoted key: the
  group is the non-empty run up to the next double quote.
\<close>

definition quoted_value_here :: "string \<Rightarrow> string option" where
  "quoted_value_here s =
     (case dropWhile is_space s of
        [] \<Rightarrow> None
      | c # s1 \<Rightarrow>
          if c \<noteq> CHR '':'' then None
          else (case dropWhile is_space s1 of
                  [] \<Rightarrow> None
                | q # s2 \<Rightarrow>
                    if q \<noteq> CHR 0x22 then None
                    else (let v = takeWhile (\<lambda>c. c \<noteq> CHR 0x22) s2
                          in if v \<noteq> [] \<and> length v < length s2 then Some v else None)))"

text \<open>\<open>"params"\s*:\s*(\{[^}]*\})\<close> behind one occurrence of the quoted key.\<close>

definition braced_value_here :: "string \<Rightarrow> string option" where
  "braced_value_here s =
     (case dropWhile is_space s of
        [] \<Rightarrow> None
      | c # s1 \<Rightarrow>
          if c \<noteq> CHR '':'' then None
          else (case dropWhile is_space s1 of
                  [] \<Rightarrow> None
                | b # s2 \<Rightarrow>
                    if b \<noteq> CHR ''{'' then None
                    else (let v = takeWhile (\<lambda>c. c \<noteq> CHR ''}'') s2
                          in if length v < length s2 then Some (CHR ''{'' # v @ ''}'') else None)))"

text \<open>The leftmost occurrence of the key behind which the rest of the pattern matches.\<close>

fun search_after :: "(string \<Rightarrow> string option) \<Rightarrow> string \<Rightarrow> string \<Rightarrow> string option" where
  "search_after here key [] = None"
| "search_after here key (c # cs) =
     (if starts_with key (c # cs)
      then (case here (drop (length key) (c # cs)) of
              Some v \<Rightarrow> Some v
            | None \<Rightarrow> search_after here key cs)
      else search_after here key cs)"

subsection \<open>The pipeline\<close>

text \<open>
  \<open>json.loads\<close> belongs to the Python library and enters as the parameter \<open>loads\<close>
  (None when it raises JSONDecodeError). \<open>last_action\<close> is the attribute
  \<open>self.last_action\<close>, \<open>JNull\<close> for Python's None. The result is whatever value the
  first successful method yields; the empty dict when all fail. The source's
  Chinese reasoning texts are given in English.
\<close>

definition method5 :: "(string \<Rightarrow> json option) \<Rightarrow> string \<Rightarrow> json option" where
  \<open>method5 loads cleaned_text =
     (case search_after quoted_value_here ''"action"'' cleaned_text of
        None \<Rightarrow> None
      | Some action \<Rightarrow>
          (let params =
                 (case search_after braced_value_here ''"params"'' cleaned_text of
                    None \<Rightarrow> JObj []
                  | Some g \<Rightarrow>
                      (case loads (replace_all ''}}'' ''}'' (replace_all ''{{'' ''{'' g)) of
                         None \<Rightarrow> JObj []
                       | Some p \<Rightarrow> p));
               reasoning =
                 (case search_after quoted_value_here ''"reasoning"'' cleaned_text of
                    None \<Rightarrow> ''decision extracted by regular expressions''
                  | Some r \<Rightarrow> r)
           in Some (JObj [(''action'', JStr action), (''params'', params),
                          (''reasoning'', JStr reasoning)])))\<close>

definition method6 :: "json \<Rightarrow> json" where
  "method6 last_action =
     (if truthy last_action \<and> last_action = JStr ''GENERATE_KEYWORDS'' then
        JObj [(''action'', JStr ''SEARCH_GITHUB''), (''params'', JObj []),
              (''reasoning'', JStr ''keywords generated, GitHub search is next'')]
      else if truthy last_action \<and> last_action = JStr ''SEARCH_GITHUB'' then
        JObj [(''action'', JStr ''CALCULATE_SCORES''), (''params'', JObj []),
              (''reasoning'', JStr ''GitHub search done, scoring is next'')]
      else JObj [])"

text \<open>\<open>text.replace('```json', '').replace('```', '')\<close>.\<close>

definition strip_fences :: "string \<Rightarrow> string" where
  "strip_fences text = replace_all ''```'' [] (replace_all ''```json'' [] text)"

text \<open>\<open>lit in s\<close> on strings, for a non-empty \<open>lit\<close>.\<close>

fun occurs_in :: "string \<Rightarrow> string \<Rightarrow> bool" where
  "occurs_in lit [] = False"
| "occurs_in lit (c # cs) = (starts_with lit (c # cs) \<or> occurs_in lit cs)"

definition try_parse_json_from_llm_response ::
    "(string \<Rightarrow> json option) \<Rightarrow> json \<Rightarrow> string \<Rightarrow> json" where
  "try_parse_json_from_llm_response loads last_action text =
     (let cleaned_text = strip_fences text in
      case loads cleaned_text of
        Some json_obj \<Rightarrow> json_obj
      | None \<Rightarrow>
      (case Option.bind (greedy_brace_span cleaned_text) loads of
        Some json_obj \<Rightarrow> json_obj
      | None \<Rightarrow>
      (case Option.bind (action_span cleaned_text) loads of
        Some json_obj \<Rightarrow> json_obj
      | None \<Rightarrow>
      (case loads (replace_all ''}}'' ''}'' (replace_all ''{{'' ''{'' cleaned_text)) of
        Some json_obj \<Rightarrow> json_obj
      | None \<Rightarrow>
      (case method5 loads cleaned_text of
        Some decision \<Rightarrow> decision
      | None \<Rightarrow> method6 last_action)))))"

text \<open>The \<open>action\<close> entry of a decision, None when the value is no dict or has no such key.\<close>

definition dict_get_action :: "json \<Rightarrow> json option" where
  "dict_get_action j = (case j of JObj d \<Rightarrow> map_of d ''action'' | _ \<Rightarrow> None)"

subsection \<open>A JSON reader for the examples\<close>

text \<open>
  The theorems below hold for every \<open>loads\<close>. The examples need one: a reader for
  the part of JSON they use (objects, arrays, strings with the one-character
  escapes, integers, \<open>true\<close>, \<open>false\<close>, \<open>null\<close>; no \<open>\u\<close> escapes, no fractions or
  exponents). As in Python, a repeated key keeps its first position and its last
  value. The recursion is bounded by the length of the text, which is more than
  the nesting depth of any value in it.
\<close>

definition json_ws :: "char \<Rightarrow> bool" where
  "json_ws c = (c = CHR '' '' \<or> c = CHR 0x09 \<or> c = CHR 0x0A \<or> c = CHR 0x0D)"

definition is_digit :: "char \<Rightarrow> bool" where
  "is_digit c = (48 \<le> (of_char c :: nat) \<and> (of_char c :: nat) \<le> 57)"

definition digits_value :: "string \<Rightarrow> int" where
  "digits_value ds = foldl (\<lambda>a c. 10 * a + (int (of_char c) - 48)) 0 ds"

definition unescape :: "char \<Rightarrow> char option" where
  "unescape e =
     (if e = CHR 0x22 \<or> e = CHR 0x5C \<or> e = CHR ''/'' then Some e
      else if e = CHR ''b'' then Some (CHR 0x08)
      else if e = CHR ''f'' then Some (CHR 0x0C)
      else if e = CHR ''n'' then Some (CHR 0x0A)
      else if e = CHR ''r'' then Some (CHR 0x0D)
      else if e = CHR ''t'' then Some (CHR 0x09)
      else None)"

text \<open>The text behind an opening double quote: the string read and what follows it.\<close>

fun read_string :: "string \<Rightarrow> (string \<times> string) option" where
  "read_string [] = None"
| "read_string (c # cs) =
     (if c = CHR 0x22 then Some ([], cs)
      else if c = CHR 0x5C then
        (case cs of
           [] \<Rightarrow> None
         | e # cs' \<Rightarrow>
             (case unescape e of
                None \<Rightarrow> None
              | Some u \<Rightarrow> map_option (\<lambda>(v, r). (u # v, r)) (read_string cs')))
      else if (of_char c :: nat) < 32 then None
      else map_option (\<lambda>(v, r). (c # v, r)) (read_string cs))"

definition read_int :: "string \<Rightarrow> (json \<times> string) option" where
  "read_int s =
     (let neg = starts_with ''-'' s;
          t = (if neg then tl s else s);
          ds = takeWhile is_digit t;
          r = dropWhile is_digit t
      in if ds = [] \<or> (hd ds = CHR ''0'' \<and> length ds > 1) then None
         else if r \<noteq> [] \<and> (hd r = CHR ''.'' \<or> hd r = CHR ''e'' \<or> hd r = CHR ''E'') then None
         else Some (JInt (if neg then - digits_value ds else digits_value ds), r))"

definition expect :: "char \<Rightarrow> string \<Rightarrow> string option" where
  "expect c s = (case dropWhile json_ws s of [] \<Rightarrow> None | x # r \<Rightarrow> if x = c then Some r else None)"

fun read_value :: "nat \<Rightarrow> string \<Rightarrow> (json \<times> string) option"
  and read_elements :: "nat \<Rightarrow> string \<Rightarrow> json list \<Rightarrow> (json \<times> string) option"
  and read_members :: "nat \<Rightarrow> string \<Rightarrow> (string \<times> json) list \<Rightarrow> (json \<times> string) option" where
  "read_value 0 s = None"
| "read_value (Suc n) s =
     (case dropWhile json_ws s of
        [] \<Rightarrow> None
      | c # cs \<Rightarrow>
          if c = CHR ''{'' then
            (case expect (CHR ''}'') cs of Some r \<Rightarrow> Some (JObj [], r) | None \<Rightarrow> read_members n cs [])
          else if c = CHR ''['' then
            (case expect (CHR '']'') cs of Some r \<Rightarrow> Some (JArr [], r) | None \<Rightarrow> read_elements n cs [])
          else if c = CHR 0x22 then map_option (\<lambda>(v, r). (JStr v, r)) (read_string cs)
          else if starts_with ''null'' (c # cs) then Some (JNull, drop 4 (c # cs))
          else if starts_with ''true'' (c # cs) then Some (JBool True, drop 4 (c # cs))
          else if starts_with ''false'' (c # cs) then Some (JBool False, drop 5 (c # cs))
          else read_int (c # cs))"
| "read_elements 0 s acc = None"
| "read_elements (Suc n) s acc =
     (case read_value n s of
        None \<Rightarrow> None
      | Some (v, r) \<Rightarrow>
          (case expect (CHR '','') r of
             Some r' \<Rightarrow> read_elements n r' (acc @ [v])
           | None \<Rightarrow>
               (case expect (CHR '']'') r of
                  Some r' \<Rightarrow> Some (JArr (acc @ [v]), r')
                | None \<Rightarrow> None)))"
| "read_members 0 s acc = None"
| "read_members (Suc n) s acc =
     (case expect (CHR 0x22) s of
        None \<Rightarrow> None
      | Some s1 \<Rightarrow>
          (case read_string s1 of
             None \<Rightarrow> None
           | Some (k, s2) \<Rightarrow>
               (case expect (CHR '':'') s2 of
                  None \<Rightarrow> None
                | Some s3 \<Rightarrow>
                    (case read_value n s3 of
                       None \<Rightarrow> None
                     | Some (v, r) \<Rightarrow>
                         (case expect (CHR '','') r of
                            Some r' \<Rightarrow> read_members n r' (dict_set acc k v)
                          | None \<Rightarrow>
                              (case expect (CHR ''}'') r of
                                 Some r' \<Rightarrow> Some (JObj (dict_set acc k v), r')
                               | None \<Rightarrow> None))))))"

definition json_loads :: "string \<Rightarrow> json option" where
  "json_loads s =
     (case read_value (Suc (length s)) s of
        None \<Rightarrow> None
      | Some (v, r) \<Rightarrow> if dropWhile json_ws r = [] then Some v else None)"

section \<open>Work state, history and collaborators (agent.py)\<close>

text \<open>
  The state dict of \<open>run\<close>. The list fields hold Python lists of arbitrary values
  (the collaborators return parsed JSON); \<open>keywords_list\<close> is the key \<open>keywords\<close>, a
  reserved word here. The key \<open>web_queries\<close> is absent from the
  initial dict and read with \<open>state.get\<close> only, so absent and empty coincide.
\<close>

record state =
  domain :: string
  keywords_list :: "json list"
  github_repos :: "json list"
  web_queries :: "json list"
  web_search_results :: "json list"
  candidate_repos :: "json list"
  ranked_repos :: "json list"
  final_report :: string

definition initial_state :: "string \<Rightarrow> state" where
  "initial_state d =
     \<lparr>domain = d, keywords_list = [], github_repos = [], web_queries = [], web_search_results = [],
      candidate_repos = [], ranked_repos = [], final_report = []\<rparr>"

text \<open>An exception with its message (\<open>str(e)\<close>).\<close>

datatype error = PyError string

text \<open>A history entry: action, params, result summary.\<close>

type_synonym history = "(json \<times> json \<times> string) list"

text \<open>
  The collaborators of tools.py, called through \<open>_execute_action\<close>. None stands for
  a call that raises; the two keyword and query generators catch every exception
  themselves and always return a list.
\<close>

record tools =
  generate_keywords :: "string \<Rightarrow> json list"
  search_github_repositories :: "json \<Rightarrow> json list option"
  generate_web_queries :: "string \<Rightarrow> json list"
  search_web :: "json \<Rightarrow> json list option"
  extract_github_links :: "json \<Rightarrow> json list option"
  get_repo_details :: "json \<Rightarrow> (string \<times> json) list option"
  generate_final_report :: "json list \<Rightarrow> string \<Rightarrow> string option"
  clock_days_since :: "string \<Rightarrow> int option"

text \<open>What \<open>_execute_action\<close> returns: None, a list, a dict or a string.\<close>

datatype result = RNone | RList "json list" | RDict "(string \<times> json) list" | RStr string

fun result_truthy :: "result \<Rightarrow> bool" where
  "result_truthy RNone = False"
| "result_truthy (RList xs) = (xs \<noteq> [])"
| "result_truthy (RDict d) = (d \<noteq> [])"
| "result_truthy (RStr t) = (t \<noteq> [])"

section \<open>Decision Engine (agent.py, \<open>_decide_next_action\<close>)\<close>

definition action_names :: "string list" where
  "action_names =
     [''GENERATE_KEYWORDS'', ''SEARCH_GITHUB'', ''GENERATE_WEB_QUERIES'', ''SEARCH_WEB'',
      ''EXTRACT_GITHUB_LINKS'', ''GET_REPO_DETAILS'', ''CALCULATE_SCORES'', ''GENERATE_REPORT'',
      ''COMPLETE'']"

fun is_str :: "json \<Rightarrow> bool" where
  "is_str (JStr _) = True"
| "is_str _ = False"

fun is_dict :: "json \<Rightarrow> bool" where
  "is_dict (JObj _) = True"
| "is_dict _ = False"

text \<open>
  The two summaries are text for the prompt. The model's reply is an input of this
  embedding, so of the summaries only what can end the call is kept: joining the
  first five keywords raises TypeError when one of them is no string, \<open>repo.get\<close> on
  one of the first three ranked entries raises AttributeError when it is no dict,
  and \<open>params.items()\<close> on a truthy \<open>params\<close> of a history entry raises AttributeError
  when it is no dict.
\<close>

definition format_state_summary :: "state \<Rightarrow> error + unit" where
  "format_state_summary s =
     (if \<not> list_all is_str (take 5 (keywords_list s)) then
        Inl (PyError ''sequence item: expected str instance'')
      else if \<not> list_all is_dict (take 3 (ranked_repos s)) then
        Inl (PyError ''object has no attribute get'')
      else Inr ())"

definition format_history_summary :: "history \<Rightarrow> error + unit" where
  "format_history_summary h =
     (if list_all (\<lambda>(action, params, result_summary). truthy params \<longrightarrow> is_dict params) h
      then Inr ()
      else Inl (PyError ''object has no attribute items''))"

text \<open>
  The \<open>try\<close> block: the reply (\<open>Inl\<close> when \<open>llm.invoke\<close> raises) goes through the
  interpreter. A decision that is no dict ends in the fallback on every path: the
  membership test is false or raises, or \<open>decision.get\<close> raises AttributeError.
  None means that the fallback is to decide.
\<close>

definition llm_decision ::
    "(string \<Rightarrow> json option) \<Rightarrow> error + string \<Rightarrow> json \<Rightarrow> state \<Rightarrow> (json \<times> json) option" where
  "llm_decision loads reply last_action s =
     (case reply of
        Inl e \<Rightarrow> None
      | Inr content \<Rightarrow>
          (case try_parse_json_from_llm_response loads last_action content of
             JObj decision \<Rightarrow>
               if decision \<noteq> [] \<and> has_key decision ''action'' then
                 (let action = dict_get decision ''action'' (JStr []);
                      params = dict_get decision ''params'' (JObj [])
                  in if action \<noteq> JStr ''GENERATE_REPORT'' \<or> ranked_repos s \<noteq> []
                     then Some (action, params) else None)
               else None
           | _ \<Rightarrow> None))"

text \<open>
  \<open>"url" in web_results[0]\<close> and \<open>web_results[0]["url"]\<close> on the first web result. On
  a dict it is the key test; on a string or a list the membership test is defined
  and the subscript raises TypeError; on anything else the test raises. The inner
  \<open>Inr None\<close> is the branch without a \<open>return\<close>: the function falls off its end and
  returns Python's None.
\<close>

definition extract_links_decision :: "json \<Rightarrow> error + (json \<times> json) option" where
  "extract_links_decision first_result =
     (case first_result of
        JObj d \<Rightarrow>
          if has_key d ''url''
          then Inr (Some (JStr ''EXTRACT_GITHUB_LINKS'', JObj [(''url'', dict_get d ''url'' JNull)]))
          else Inr None
      | JStr t \<Rightarrow>
          if occurs_in ''url'' t then Inl (PyError ''string indices must be integers'') else Inr None
      | JArr xs \<Rightarrow>
          if JStr ''url'' \<in> set xs then Inl (PyError ''list indices must be integers'') else Inr None
      | _ \<Rightarrow> Inl (PyError ''argument is not iterable''))"

text \<open>The decision tree on the state (lines 361 to 394), in the order of the source.\<close>

definition fallback_decision :: "state \<Rightarrow> error + (json \<times> json) option" where
  "fallback_decision s =
     (if keywords_list s = [] then
        Inr (Some (JStr ''GENERATE_KEYWORDS'', JObj []))
      else if github_repos s = [] \<and> keywords_list s \<noteq> [] then
        Inr (Some (JStr ''SEARCH_GITHUB'', JObj [(''keywords'', JArr (keywords_list s))]))
      else if web_queries s = [] \<and> keywords_list s \<noteq> [] then
        Inr (Some (JStr ''GENERATE_WEB_QUERIES'', JObj []))
      else if web_search_results s = [] \<and> web_queries s \<noteq> [] then
        (case web_queries s of
           q # _ \<Rightarrow> Inr (Some (JStr ''SEARCH_WEB'', JObj [(''query'', q)]))
         | [] \<Rightarrow> Inr (Some (JStr ''SEARCH_WEB'',
                    JObj [(''query'', JStr (''best github repositories for '' @ domain s))])))
      else if web_search_results s \<noteq> [] \<and> candidate_repos s = [] then
        (case web_search_results s of
           first_result # _ \<Rightarrow> extract_links_decision first_result
         | [] \<Rightarrow> Inr None)
      else if (github_repos s \<noteq> [] \<or> candidate_repos s \<noteq> []) \<and> ranked_repos s = [] then
        Inr (Some (JStr ''CALCULATE_SCORES'', JObj []))
      else if ranked_repos s \<noteq> [] \<and> final_report s = [] then
        Inr (Some (JStr ''GENERATE_REPORT'', JObj []))
      else
        Inr (Some (JStr ''COMPLETE'', JObj [])))"

text \<open>
  \<open>_decide_next_action\<close>. The summaries are formatted before the \<open>try\<close> block, so
  their exceptions leave the function; so do those of the decision tree. The
  parameters \<open>loads\<close>, \<open>reply\<close>, \<open>last_action\<close> and \<open>history\<close> stand for the library, the
  model and the attributes of \<open>self\<close>; the argument \<open>domain\<close> of the source only goes
  into the prompt.
\<close>

definition decide_next_action ::
    "(string \<Rightarrow> json option) \<Rightarrow> error + string \<Rightarrow> json \<Rightarrow> history \<Rightarrow> state
       \<Rightarrow> error + (json \<times> json) option" where
  "decide_next_action loads reply last_action h s =
     (case format_state_summary s of
        Inl e \<Rightarrow> Inl e
      | Inr _ \<Rightarrow>
          (case format_history_summary h of
             Inl e \<Rightarrow> Inl e
           | Inr _ \<Rightarrow>
               (case llm_decision loads reply last_action s of
                  Some decision \<Rightarrow> Inr (Some decision)
                | None \<Rightarrow> fallback_decision s)))"

text \<open>Is the first web result a dict with a \<open>url\<close> key, as \<open>search_web\<close> builds them?\<close>

definition first_result_has_url :: "state \<Rightarrow> bool" where
  "first_result_has_url s =
     (case web_search_results s of
        [] \<Rightarrow> True
      | JObj d # _ \<Rightarrow> has_key d ''url''
      | _ \<Rightarrow> False)"

section \<open>Dispatch and state update (agent.py, \<open>_execute_action\<close>, \<open>_update_state\<close>)\<close>

text \<open>
  The first truthy \<open>url\<close> among the web results (the loop of lines 441 to 444);
  \<open>result.get\<close> on an entry that is no dict raises (None), and \<open>dflt\<close> is kept when
  no entry has one.
\<close>

fun first_result_url :: "json \<Rightarrow> json list \<Rightarrow> json option" where
  "first_result_url dflt [] = Some dflt"
| "first_result_url dflt (r # rs) =
     (case r of
        JObj d \<Rightarrow>
          if truthy (dict_get d ''url'' JNull) then Some (dict_get d ''url'' JNull)
          else first_result_url dflt rs
      | _ \<Rightarrow> None)"

text \<open>
  A search result of the GitHub API as a normalised repository record (lines 472 to
  492); None for an entry that is skipped.
\<close>

definition normalise_repo :: "json \<Rightarrow> json option" where
  "normalise_repo repo =
     (case repo of
        JObj r \<Rightarrow>
          (let html_url = dict_get r ''html_url'' JNull
           in if \<not> truthy html_url then None
              else Some (JObj
                [(''url'', html_url),
                 (''name'', dict_get r ''name'' (JStr [])),
                 (''full_name'', dict_get r ''full_name'' (JStr [])),
                 (''description'', dict_get r ''description'' (JStr [])),
                 (''stars'', dict_get r ''stargazers_count'' (JInt 0)),
                 (''forks'', dict_get r ''forks_count'' (JInt 0)),
                 (''pushed_at'', dict_get r ''pushed_at'' (JStr [])),
                 (''language'', dict_get r ''language'' (JStr []))]))
      | _ \<Rightarrow> None)"

text \<open>\<open>repo.get("url")\<close> on a candidate record.\<close>

definition repo_url_of :: "json \<Rightarrow> json" where
  "repo_url_of repo = (case repo of JObj d \<Rightarrow> dict_get d ''url'' JNull | _ \<Rightarrow> JNull)"

text \<open>
  One round of the loop over the candidate URLs (lines 500 to 515): a URL already
  among the records is skipped, a failed or empty detail fetch adds nothing.
\<close>

definition add_candidate :: "tools \<Rightarrow> json list \<Rightarrow> json \<Rightarrow> json list" where
  "add_candidate t candidates repo_url =
     (if list_ex (\<lambda>repo. repo_url_of repo = repo_url) candidates then candidates
      else (case get_repo_details t repo_url of
              None \<Rightarrow> candidates
            | Some details \<Rightarrow>
                if details \<noteq> [] \<and> has_key details ''url'' then candidates @ [JObj details]
                else candidates))"

text \<open>\<open>repo_with_score = repo.copy(); repo_with_score["score"] = score\<close>.\<close>

definition with_score :: "tools \<Rightarrow> json \<Rightarrow> json" where
  "with_score t repo =
     (case repo of
        JObj d \<Rightarrow> JObj (dict_set d ''score'' (JFloat (calculate_repo_score (clock_days_since t) repo)))
      | _ \<Rightarrow> repo)"

text \<open>\<open>x.get("score", 0)\<close> on a record; a value that is no dict has no score here.\<close>

definition repo_score_of :: "json \<Rightarrow> json" where
  "repo_score_of x = (case x of JObj d \<Rightarrow> dict_get d ''score'' (JInt 0) | _ \<Rightarrow> JInt 0)"

text \<open>The sort key \<open>x.get("score", 0)\<close>, a number on every scored record.\<close>

definition score_key :: "json \<Rightarrow> real" where
  "score_key x =
     (case repo_score_of x of
        JFloat r \<Rightarrow> r
      | JInt i \<Rightarrow> real_of_int i
      | _ \<Rightarrow> 0)"

text \<open>
  The branch CALCULATE_SCORES. \<open>list.sort(key=..., reverse=True)\<close> is stable and
  descending, which is the stable ascending sort on the negated key.
\<close>

definition calculate_scores :: "tools \<Rightarrow> state \<Rightarrow> json list" where
  "calculate_scores t s =
     (let from_search = List.map_filter normalise_repo (github_repos s);
          candidates = foldl (add_candidate t) from_search (candidate_repos s)
      in if candidates = [] then []
         else take 10 (sort_key (\<lambda>x. - score_key x) (map (with_score t) candidates)))"

text \<open>
  \<open>_execute_action\<close>. Every exception inside is caught and gives None; \<open>params.get\<close>
  raises AttributeError when \<open>params\<close> is no dict. The source's Chinese message is
  given in English.
\<close>

definition execute_action :: "tools \<Rightarrow> json \<Rightarrow> json \<Rightarrow> state \<Rightarrow> result" where
  "execute_action t action params s =
     (if action = JStr ''GENERATE_KEYWORDS'' then
        RList (generate_keywords t (domain s))
      else if action = JStr ''SEARCH_GITHUB'' then
        (case params of
           JObj p \<Rightarrow>
             (let kws = dict_get p ''keywords'' (JArr (keywords_list s))
              in if \<not> truthy kws then RList []
                 else (case search_github_repositories t kws of None \<Rightarrow> RNone | Some r \<Rightarrow> RList r))
         | _ \<Rightarrow> RNone)
      else if action = JStr ''GENERATE_WEB_QUERIES'' then
        RList (generate_web_queries t (domain s))
      else if action = JStr ''SEARCH_WEB'' then
        (case params of
           JObj p \<Rightarrow>
             (let query0 = dict_get p ''query'' (JStr []);
                  query1 = (if \<not> truthy query0 \<and> web_queries s \<noteq> []
                            then (case web_queries s of q # _ \<Rightarrow> q | [] \<Rightarrow> query0) else query0);
                  query = (if \<not> truthy query1
                           then JStr (''best github repositories for '' @ domain s) else query1)
              in case search_web t query of None \<Rightarrow> RNone | Some r \<Rightarrow> RList r)
         | _ \<Rightarrow> RNone)
      else if action = JStr ''EXTRACT_GITHUB_LINKS'' then
        (case params of
           JObj p \<Rightarrow>
             (let url0 = dict_get p ''url'' (JStr [])
              in case (if \<not> truthy url0 \<and> web_search_results s \<noteq> []
                       then first_result_url url0 (web_search_results s) else Some url0) of
                   None \<Rightarrow> RNone
                 | Some url \<Rightarrow>
                     if \<not> truthy url then RList []
                     else (case extract_github_links t url of None \<Rightarrow> RNone | Some r \<Rightarrow> RList r))
         | _ \<Rightarrow> RNone)
      else if action = JStr ''GET_REPO_DETAILS'' then
        (case params of
           JObj p \<Rightarrow>
             (let repo_url = dict_get p ''repo_url'' (JStr [])
              in if \<not> truthy repo_url then RDict []
                 else (case get_repo_details t repo_url of None \<Rightarrow> RNone | Some d \<Rightarrow> RDict d))
         | _ \<Rightarrow> RNone)
      else if action = JStr ''CALCULATE_SCORES'' then
        RList (calculate_scores t s)
      else if action = JStr ''GENERATE_REPORT'' then
        (if ranked_repos s = [] then
           RStr (''No GitHub repositories found for domain '' @ domain s
                 @ ''. Please try other keywords or another domain name.'')
         else (case generate_final_report t (ranked_repos s) (domain s) of
                 None \<Rightarrow> RNone
               | Some report \<Rightarrow> RStr report))
      else RNone)"

text \<open>\<open>if url and url not in candidate_repos: candidate_repos.append(url)\<close>.\<close>

definition merge_link :: "json list \<Rightarrow> json \<Rightarrow> json list" where
  "merge_link candidates url =
     (if truthy url \<and> url \<notin> set candidates then candidates @ [url] else candidates)"

text \<open>
  \<open>_update_state\<close>: the field named by the action is replaced (or, for the two link
  actions, extended) when the result is truthy. \<open>_execute_action\<close> returns a list for
  the list-valued actions, a dict for GET_REPO_DETAILS and a string for
  GENERATE_REPORT, so these are the shapes the branches take.
\<close>

definition update_state :: "state \<Rightarrow> json \<Rightarrow> result \<Rightarrow> state" where
  "update_state s action result =
     (if \<not> result_truthy result then s
      else if action = JStr ''GENERATE_KEYWORDS'' then
        (case result of RList r \<Rightarrow> s\<lparr>keywords_list := r\<rparr> | _ \<Rightarrow> s)
      else if action = JStr ''SEARCH_GITHUB'' then
        (case result of RList r \<Rightarrow> s\<lparr>github_repos := r\<rparr> | _ \<Rightarrow> s)
      else if action = JStr ''GENERATE_WEB_QUERIES'' then
        (case result of RList r \<Rightarrow> s\<lparr>web_queries := r\<rparr> | _ \<Rightarrow> s)
      else if action = JStr ''SEARCH_WEB'' then
        (case result of RList r \<Rightarrow> s\<lparr>web_search_results := r\<rparr> | _ \<Rightarrow> s)
      else if action = JStr ''EXTRACT_GITHUB_LINKS'' then
        (case result of
           RList r \<Rightarrow> s\<lparr>candidate_repos := foldl merge_link (candidate_repos s) r\<rparr>
         | _ \<Rightarrow> s)
      else if action = JStr ''GET_REPO_DETAILS'' then
        (case result of
           RDict d \<Rightarrow>
             (let url = dict_get d ''url'' JNull
              in if truthy url \<and> url \<notin> set (candidate_repos s)
                 then s\<lparr>candidate_repos := candidate_repos s @ [url]\<rparr> else s)
         | _ \<Rightarrow> s)
      else if action = JStr ''CALCULATE_SCORES'' then
        (case result of RList r \<Rightarrow> s\<lparr>ranked_repos := r\<rparr> | _ \<Rightarrow> s)
      else if action = JStr ''GENERATE_REPORT'' then
        (case result of RStr r \<Rightarrow> s\<lparr>final_report := r\<rparr> | _ \<Rightarrow> s)
      else s)"

subsection \<open>Result summaries (\<open>_summarize_result\<close>)\<close>

fun show_nat :: "nat \<Rightarrow> string" where
  "show_nat n =
     (if n < 10 then [char_of (48 + n)]
      else show_nat (n div 10) @ [char_of (48 + n mod 10)])"

fun join :: "string \<Rightarrow> string list \<Rightarrow> string" where
  "join sep [] = []"
| "join sep [x] = x"
| "join sep (x # y # ys) = x @ sep @ join sep (y # ys)"

text \<open>The source's Chinese phrases are given in English.\<close>

fun summarize_result :: "result \<Rightarrow> string" where
  "summarize_result RNone = ''no result''"
| "summarize_result (RList xs) = ''got '' @ show_nat (length xs) @ '' items''"
| "summarize_result (RDict d) =
     ''got an object with '' @ join '', '' (take 3 (map fst d))
       @ (if length d > 3 then '' etc.'' else [])"
| "summarize_result (RStr t) =
     (if length t > 100 then ''generated a long text ('' @ show_nat (length t) @ '' characters)''
      else ''result: '' @ t)"

section \<open>Orchestration Loop (agent.py, \<open>run\<close>)\<close>

text \<open>
  What \<open>run\<close> meets outside itself: \<open>json.loads\<close>, the planning call, the model's
  reply to the decision prompt of each iteration (\<open>Inl\<close> when the call raises) and
  the behaviour of the tools during each iteration; index 0 is the time after the
  loop.
\<close>

record env =
  json_loads_of :: "string \<Rightarrow> json option"
  plan_execution :: "string \<Rightarrow> error + string"
  llm_reply :: "nat \<Rightarrow> error + string"
  tools_at :: "nat \<Rightarrow> tools"

definition max_iterations :: nat where
  "max_iterations = 10"

text \<open>
  How the \<open>while\<close> loop was left: by \<open>break\<close> on COMPLETE, by its condition, or by an
  exception that reaches the handler of \<open>run\<close>.
\<close>

datatype loop_exit = Completed | Exhausted | Crashed error

text \<open>
  The loop, from the values of \<open>iterations\<close>, \<open>state\<close>, \<open>self.history\<close> and
  \<open>self.last_action\<close> at its head. Unpacking \<open>action, params = None\<close> raises TypeError.
\<close>

function agent_loop :: "env \<Rightarrow> nat \<Rightarrow> state \<Rightarrow> history \<Rightarrow> json \<Rightarrow> loop_exit \<times> state \<times> history \<times> json" where
  "agent_loop e iterations s h last_action =
     (if iterations < max_iterations then
        (case decide_next_action (json_loads_of e) (llm_reply e (Suc iterations)) last_action h s of
           Inl err \<Rightarrow> (Crashed err, s, h, last_action)
         | Inr None \<Rightarrow>
             (Crashed (PyError ''cannot unpack non-iterable NoneType object''), s, h, last_action)
         | Inr (Some (action, params)) \<Rightarrow>
             if action = JStr ''COMPLETE'' then (Completed, s, h, last_action)
             else
               (let result = execute_action (tools_at e (Suc iterations)) action params s
                in agent_loop e (Suc iterations) (update_state s action result)
                     (h @ [(action, params, summarize_result result)]) action))
      else (Exhausted, s, h, last_action))"
  by pat_completeness auto
termination
  by (relation "measure (\<lambda>(e, iterations, s, h, last_action). max_iterations - iterations)") auto

text \<open>
  Lines 136 to 140: a report is synthesised when none is stored and ranked
  repositories exist. An exception of the composer reaches the handler of \<open>run\<close>.
\<close>

definition finalize_report :: "tools \<Rightarrow> state \<Rightarrow> error + state" where
  "finalize_report t s =
     (if final_report s = [] \<and> ranked_repos s \<noteq> [] then
        (case generate_final_report t (ranked_repos s) (domain s) of
           None \<Rightarrow> Inl (PyError ''report generation failed'')
         | Some report \<Rightarrow> Inr (s\<lparr>final_report := report\<rparr>))
      else Inr s)"

definition error_report :: "error \<Rightarrow> string" where
  "error_report err = (case err of PyError msg \<Rightarrow> ''Error during search: '' @ msg)"

text \<open>
  \<open>run\<close>. The key \<open>final_report\<close> is in the state dict from its creation, so
  \<open>state.get("final_report", default)\<close> is the stored value and the default message
  is never taken.
\<close>

definition run :: "env \<Rightarrow> string \<Rightarrow> string" where
  "run e d =
     (case plan_execution e d of
        Inl err \<Rightarrow> error_report err
      | Inr plan \<Rightarrow>
          (case agent_loop e 0 (initial_state d) [] JNull of
             (Crashed err, s, h, last_action) \<Rightarrow> error_report err
           | (_, s, h, last_action) \<Rightarrow>
               (case finalize_report (tools_at e 0) s of
                  Inl err \<Rightarrow> error_report err
                | Inr s' \<Rightarrow> final_report s')))"

text \<open>One dispatch of CALCULATE_SCORES as the loop body performs it: execute, then update.\<close>

definition scoring_pass :: "tools \<Rightarrow> json \<Rightarrow> state \<Rightarrow> state" where
  "scoring_pass t params s =
     update_state s (JStr ''CALCULATE_SCORES'') (execute_action t (JStr ''CALCULATE_SCORES'') params s)"

text \<open>
  The configurations at the head of the loop that a run for domain \<open>d\<close> in
  environment \<open>e\<close> can reach.
\<close>

inductive reachable :: "env \<Rightarrow> string \<Rightarrow> nat \<Rightarrow> state \<Rightarrow> history \<Rightarrow> json \<Rightarrow> bool"
  for e :: env and d :: string where
  reach_start: "reachable e d 0 (initial_state d) [] JNull"
| reach_step:
    "reachable e d iterations s h last_action \<Longrightarrow> iterations < max_iterations \<Longrightarrow>
     decide_next_action (json_loads_of e) (llm_reply e (Suc iterations)) last_action h s
       = Inr (Some (action, params)) \<Longrightarrow>
     action \<noteq> JStr ''COMPLETE'' \<Longrightarrow>
     result = execute_action (tools_at e (Suc iterations)) action params s \<Longrightarrow>
     reachable e d (Suc iterations) (update_state s action result)
       (h @ [(action, params, summarize_result result)]) action"

section \<open>Example states and environments\<close>

text \<open>A clock and parser for the examples: one timestamp, pushed five days ago.\<close>

definition fixture_days_since :: "string \<Rightarrow> int option" where
  "fixture_days_since p = (if p = ''2024-01-01T00:00:00Z'' then Some 5 else None)"

definition fixture_searched :: state where
  "fixture_searched =
     \<lparr>domain = ''containerization'',
      keywords_list = [JStr ''docker''],
      github_repos = [JObj [(''html_url'', JStr ''https://github.com/moby/moby'')]],
      web_queries = [JStr ''best container tools''],
      web_search_results = [],
      candidate_repos = [],
      ranked_repos = [],
      final_report = []\<rparr>"

text \<open>A first web result with a \<open>url\<close>, and one without.\<close>

definition fixture_web_found :: state where
  "fixture_web_found =
     fixture_searched\<lparr>web_search_results :=
       [JObj [(''title'', JStr ''Top tools''), (''url'', JStr ''https://example.com/top''),
              (''snippet'', JStr [])]]\<rparr>"

definition fixture_web_no_url :: state where
  "fixture_web_no_url =
     fixture_searched\<lparr>web_search_results := [JObj [(''title'', JStr ''Top tools'')]]\<rparr>"

definition fixture_ranked :: state where
  "fixture_ranked =
     fixture_web_found\<lparr>candidate_repos := [JStr ''https://github.com/moby/moby''],
       ranked_repos := [JObj [(''url'', JStr ''https://github.com/moby/moby''), (''score'', JFloat 0)]]\<rparr>"

definition fixture_reported :: state where
  "fixture_reported = fixture_ranked\<lparr>final_report := ''# Report''\<rparr>"

text \<open>
  Tools for the examples: one repository is found by the search and again behind
  the first web result; the detail fetch fails.
\<close>

definition fixture_tools :: tools where
  "fixture_tools =
     \<lparr>generate_keywords = (\<lambda>d. [JStr ''docker'']),
      search_github_repositories =
        (\<lambda>kws. Some [JObj [(''html_url'', JStr ''https://github.com/moby/moby''),
                           (''full_name'', JStr ''moby/moby'')]]),
      generate_web_queries = (\<lambda>d. [JStr ''best container tools'']),
      search_web =
        (\<lambda>q. Some [JObj [(''title'', JStr ''Top tools''), (''url'', JStr ''https://example.com/top''),
                         (''snippet'', JStr [])]]),
      extract_github_links = (\<lambda>u. Some [JStr ''https://github.com/moby/moby'']),
      get_repo_details = (\<lambda>u. None),
      generate_final_report = (\<lambda>repos d. Some ''# Report''),
      clock_days_since = fixture_days_since\<rparr>"

text \<open>The same tools with a GitHub search that finds nothing.\<close>

definition fixture_tools_nothing :: tools where
  "fixture_tools_nothing = fixture_tools\<lparr>search_github_repositories := (\<lambda>kws. Some [])\<rparr>"

text \<open>The model is unreachable, so the fallback decides every step.\<close>

definition fixture_env_offline :: env where
  "fixture_env_offline =
     \<lparr>json_loads_of = json_loads,
      plan_execution = (\<lambda>d. Inr ''1. generate keywords''),
      llm_reply = (\<lambda>i. Inl (PyError ''connection refused'')),
      tools_at = (\<lambda>i. fixture_tools)\<rparr>"

definition fixture_env_nothing_found :: env where
  "fixture_env_nothing_found = fixture_env_offline\<lparr>tools_at := (\<lambda>i. fixture_tools_nothing)\<rparr>"

text \<open>The model answers every decision prompt with a string for \<open>params\<close>.\<close>

definition fixture_env_bad_params :: env where
  \<open>fixture_env_bad_params =
     fixture_env_offline\<lparr>llm_reply :=
       (\<lambda>i. Inr ''{"action": "GENERATE_KEYWORDS", "params": "none", "reasoning": "start"}'')\<rparr>\<close>

section \<open>Numeric bounds on the exponential\<close>

text \<open>
  Partial sums of the exponential series bound \<open>exp\<close> from below, and from above with
  the Lagrange remainder; repeated squaring carries a bound at a small argument to
  the argument needed for \<open>ln (101 ^ 7 * 11 ^ 3)\<close>.
\<close>

lemma exp_taylor_lower:
  fixes x :: real
  assumes "0 \<le> x"
  shows "(\<Sum>m<n. x ^ m / fact m) \<le> exp x"
proof -
  obtain t where t: "exp x = (\<Sum>m<n. x ^ m / fact m) + (exp t / fact n) * x ^ n"
    using Maclaurin_exp_le [of x n] by blast
  have "0 \<le> (exp t / fact n) * x ^ n" using assms by simp
  with t show ?thesis by linarith
qed

lemma exp_taylor_upper:
  fixes x :: real
  assumes "0 \<le> x" "x \<le> 1"
  shows "exp x \<le> (\<Sum>m<n. x ^ m / fact m) + 3 * x ^ n / fact n"
proof -
  obtain t where t: "\<bar>t\<bar> \<le> \<bar>x\<bar>" "exp x = (\<Sum>m<n. x ^ m / fact m) + (exp t / fact n) * x ^ n"
    using Maclaurin_exp_le [of x n] by blast
  have "t \<le> 1" using t(1) assms by linarith
  then have "exp t \<le> exp 1" by simp
  also have "\<dots> \<le> 3" by (rule exp_le)
  finally have "exp t \<le> 3" .
  then have "(exp t / fact n) * x ^ n \<le> (3 / fact n) * x ^ n"
    using assms by (intro mult_right_mono divide_right_mono) simp_all
  with t(2) show ?thesis by simp
qed

lemma exp_base_lower: "(18537071497 / 10000000000 :: real) \<le> exp (79 / 128)"
proof -
  have "(18537071497 / 10000000000 :: real) \<le> (\<Sum>m<10. (79 / 128) ^ m / fact m)"
    by (simp add: eval_nat_numeral lessThan_Suc fact_numeral)
  also have "\<dots> \<le> exp (79 / 128)" by (rule exp_taylor_lower) simp
  finally show ?thesis .
qed

lemma exp_base_upper: "exp (3949 / 6400) \<le> (18534176021 / 10000000000 :: real)"
proof -
  have "exp (3949 / 6400 :: real) \<le> (\<Sum>m<9. (3949 / 6400) ^ m / fact m) + 3 * (3949 / 6400) ^ 9 / fact 9"
    by (rule exp_taylor_upper) simp_all
  also have "\<dots> \<le> 18534176021 / 10000000000"
    by (simp add: eval_nat_numeral lessThan_Suc fact_numeral)
  finally show ?thesis .
qed

lemma exp_square_lower:
  fixes c d y :: real
  assumes "c \<le> exp y" "0 \<le> c" "d \<le> c * c" "z = 2 * y"
  shows "d \<le> exp z"
proof -
  have "c * c \<le> exp y * exp y" using assms(1,2) by (intro mult_mono) simp_all
  also have "\<dots> = exp z" by (simp add: assms(4) exp_add [symmetric])
  finally show ?thesis using assms(3) by linarith
qed

lemma exp_square_upper:
  fixes c d y :: real
  assumes "exp y \<le> c" "c * c \<le> d" "z = 2 * y"
  shows "exp z \<le> d"
proof -
  have c: "0 \<le> c" using assms(1) exp_ge_zero [of y] by linarith
  have "exp z = exp y * exp y" by (simp add: assms(3) exp_add [symmetric])
  also have "\<dots> \<le> c * c" using assms(1) c by (intro mult_mono) simp_all
  finally show ?thesis using assms(2) by linarith
qed

lemma exp_395_lower:
  "(142701215365443031::real) < exp (395 / 10)"
proof -
  have a1: "(2147643873 / 625000000 :: real) \<le> exp (79 / 64)"
    by (rule exp_square_lower [OF exp_base_lower]) simp_all
  have a2: "(2361535593 / 200000000 :: real) \<le> exp (79 / 32)"
    by (rule exp_square_lower [OF a1]) simp_all
  have a3: "(3485531473 / 25000000 :: real) \<le> exp (79 / 16)"
    by (rule exp_square_lower [OF a2]) simp_all
  have a4: "(9719143719 / 500000 :: real) \<le> exp (79 / 8)"
    by (rule exp_square_lower [OF a3]) simp_all
  have a5: "(9446175463 / 25 :: real) \<le> exp (79 / 4)"
    by (rule exp_square_lower [OF a4]) simp_all
  have a6: "(142768369400000000 :: real) \<le> exp (79 / 2)"
    by (rule exp_square_lower [OF a5]) simp_all
  from a6 show ?thesis by simp
qed

lemma exp_3949_upper:
  "exp (3949 / 100) < (142701215365443031::real)"
proof -
  have a1: "exp (3949 / 3200) \<le> (17175784039 / 5000000000 :: real)"
    by (rule exp_square_upper [OF exp_base_upper]) simp_all
  have a2: "exp (3949 / 1600) \<le> (2360060459 / 200000000 :: real)"
    by (rule exp_square_upper [OF a1]) simp_all
  have a3: "exp (3949 / 800) \<le> (6962356713 / 50000000 :: real)"
    by (rule exp_square_upper [OF a2]) simp_all
  have a4: "exp (3949 / 400) \<le> (48474411 / 2500 :: real)"
    by (rule exp_square_upper [OF a3]) simp_all
  have a5: "exp (3949 / 200) \<le> (37596296349 / 100 :: real)"
    by (rule exp_square_upper [OF a4]) simp_all
  have a6: "exp (3949 / 100) \<le> (141348149920000000 :: real)"
    by (rule exp_square_upper [OF a5]) simp_all
  from a6 show ?thesis by simp
qed

lemma ln_101_11_eq: "7 * ln (101::real) + 3 * ln 11 = ln 142701215365443031"
proof -
  have p1: "ln (107213535210701::real) = 7 * ln 101"
    using ln_realpow [of "101::real" 7] by simp
  have p2: "ln (1331::real) = 3 * ln 11"
    using ln_realpow [of "11::real" 3] by simp
  have "ln (107213535210701 * 1331 :: real) = ln 107213535210701 + ln 1331"
    by (rule ln_mult_pos) simp_all
  then show ?thesis by (simp add: p1 p2)
qed

lemma ln_N_upper: "ln (142701215365443031::real) < 395 / 10"
proof -
  have "exp (ln (142701215365443031::real)) < exp (395 / 10)"
    using exp_395_lower by simp
  then show ?thesis by (simp only: exp_less_cancel_iff)
qed

lemma ln_N_lower: "3949 / 100 < ln (142701215365443031::real)"
proof -
  have "exp (3949 / 100 :: real) < exp (ln 142701215365443031)"
    using exp_3949_upper by simp
  then show ?thesis by (simp only: exp_less_cancel_iff)
qed

lemma score_100_10_bounds:
  "3949 / 1000 < 0.7 * ln (101::real) + 0.3 * ln 11 \<and> 0.7 * ln (101::real) + 0.3 * ln 11 < 3950 / 1000"
  using ln_N_lower ln_N_upper ln_101_11_eq by simp


section \<open>Scoring\<close>

lemma score_body_parsed:
  assumes "py_or (dict_get d ''stars'' (JInt 0)) (dict_get d ''stargazers_count'' (JInt 0)) = JInt (int stars)"
    and "py_or (dict_get d ''forks'' (JInt 0)) (dict_get d ''forks_count'' (JInt 0)) = JInt (int forks)"
    and "recency_score days_since (dict_get d ''pushed_at'' (JStr [])) = Some r"
  shows "score_body days_since (JObj d) = Some ((0.7 * ln (real stars + 1) + 0.3 * ln (real forks + 1)) * r)"
  using assms by (simp add: score_body_def Let_def math_log_def)

text \<open>
  C6. For a repository record whose star and fork counts are natural numbers and whose
  last-push timestamp parses (so that the number of days since the push is known),
  \<open>calculate_repo_score\<close> returns \<open>(0.7 * ln (stars + 1) + 0.3 * ln (forks + 1)) * recency\<close>
  with the recency step function 1.0, 0.8, 0.5, 0.2, 0.05 at the thresholds 30, 180,
  365, 730 days; with 100 stars, 10 forks and a push 5 days ago the score lies
  between 3.949 and 3.950.
\<close>

theorem calculate_repo_score_formula:
  assumes "py_or (dict_get d ''stars'' (JInt 0)) (dict_get d ''stargazers_count'' (JInt 0)) = JInt (int stars)"
    and "py_or (dict_get d ''forks'' (JInt 0)) (dict_get d ''forks_count'' (JInt 0)) = JInt (int forks)"
    and "dict_get d ''pushed_at'' (JStr []) = JStr p" and "p \<noteq> []"
    and "days_since p = Some days_diff"
  shows "calculate_repo_score days_since (JObj d) =
           (0.7 * ln (real stars + 1) + 0.3 * ln (real forks + 1)) *
             (if days_diff \<le> 30 then 1.0 else if days_diff \<le> 180 then 0.8
              else if days_diff \<le> 365 then 0.5 else if days_diff \<le> 730 then 0.2 else 0.05)
         \<and> (stars = 100 \<longrightarrow> forks = 10 \<longrightarrow> days_diff = 5 \<longrightarrow>
              calculate_repo_score days_since (JObj d) = (0.7 * ln 101 + 0.3 * ln 11) * 1.0
              \<and> 3949 / 1000 < calculate_repo_score days_since (JObj d)
              \<and> calculate_repo_score days_since (JObj d) < 3950 / 1000)"
proof -
  have r: "recency_score days_since (dict_get d ''pushed_at'' (JStr [])) = Some (recency_of_days days_diff)"
    using assms(3-5) by (simp add: recency_score_def)
  have eq: "calculate_repo_score days_since (JObj d) =
      (0.7 * ln (real stars + 1) + 0.3 * ln (real forks + 1)) * recency_of_days days_diff"
    using score_body_parsed [OF assms(1,2) r] by (simp add: calculate_repo_score_def)
  have general: "calculate_repo_score days_since (JObj d) =
           (0.7 * ln (real stars + 1) + 0.3 * ln (real forks + 1)) *
             (if days_diff \<le> 30 then 1.0 else if days_diff \<le> 180 then 0.8
              else if days_diff \<le> 365 then 0.5 else if days_diff \<le> 730 then 0.2 else 0.05)"
    unfolding eq recency_of_days_def by (rule refl)
  have special: "calculate_repo_score days_since (JObj d) = (0.7 * ln 101 + 0.3 * ln 11) * 1.0
        \<and> 3949 / 1000 < calculate_repo_score days_since (JObj d)
        \<and> calculate_repo_score days_since (JObj d) < 3950 / 1000"
    if "stars = 100" "forks = 10" "days_diff = 5"
    using that score_100_10_bounds by (simp add: eq recency_of_days_def)
  from general special show ?thesis by blast
qed

theorem calculate_repo_score_formula_witness:
  "calculate_repo_score fixture_days_since
     (JObj [(''url'', JStr ''https://github.com/o/r''), (''stars'', JInt 100), (''forks'', JInt 10),
            (''pushed_at'', JStr ''2024-01-01T00:00:00Z'')])
     = (0.7 * ln 101 + 0.3 * ln 11) * 1.0
   \<and> 3949 / 1000 < calculate_repo_score fixture_days_since
     (JObj [(''url'', JStr ''https://github.com/o/r''), (''stars'', JInt 100), (''forks'', JInt 10),
            (''pushed_at'', JStr ''2024-01-01T00:00:00Z'')])
   \<and> calculate_repo_score fixture_days_since
     (JObj [(''url'', JStr ''https://github.com/o/r''), (''stars'', JInt 100), (''forks'', JInt 10),
            (''pushed_at'', JStr ''2024-01-01T00:00:00Z'')]) < 3950 / 1000"
  using calculate_repo_score_formula
    [of "[(''url'', JStr ''https://github.com/o/r''), (''stars'', JInt 100), (''forks'', JInt 10),
          (''pushed_at'', JStr ''2024-01-01T00:00:00Z'')]" 100 10 "''2024-01-01T00:00:00Z''"
        fixture_days_since 5]
  by (simp add: dict_get_def py_or_def fixture_days_since_def)

text \<open>
  The two ways to a recency factor outside the step function: a timestamp that is
  present but does not parse makes \<open>strptime\<close> raise inside the \<open>try\<close> block, whose handler
  returns 0.0; the default 0.1 is kept when the timestamp is empty or missing.
\<close>

lemma calculate_repo_score_unparseable:
  assumes "py_or (dict_get d ''stars'' (JInt 0)) (dict_get d ''stargazers_count'' (JInt 0)) = JInt (int stars)"
    and "py_or (dict_get d ''forks'' (JInt 0)) (dict_get d ''forks_count'' (JInt 0)) = JInt (int forks)"
  shows "(dict_get d ''pushed_at'' (JStr []) = JStr p \<longrightarrow> p \<noteq> [] \<longrightarrow> days_since p = None \<longrightarrow>
            calculate_repo_score days_since (JObj d) = 0)
       \<and> (\<not> truthy (dict_get d ''pushed_at'' (JStr [])) \<longrightarrow>
            calculate_repo_score days_since (JObj d) =
              (0.7 * ln (real stars + 1) + 0.3 * ln (real forks + 1)) * 0.1)"
proof (intro conjI impI)
  assume "dict_get d ''pushed_at'' (JStr []) = JStr p" "p \<noteq> []" "days_since p = None"
  then have "recency_score days_since (dict_get d ''pushed_at'' (JStr [])) = None"
    by (simp add: recency_score_def)
  then show "calculate_repo_score days_since (JObj d) = 0"
    by (simp add: calculate_repo_score_def score_body_def)
next
  assume "\<not> truthy (dict_get d ''pushed_at'' (JStr []))"
  then have "recency_score days_since (dict_get d ''pushed_at'' (JStr [])) = Some 0.1"
    by (simp add: recency_score_def)
  from score_body_parsed [OF assms this]
  show "calculate_repo_score days_since (JObj d) =
          (0.7 * ln (real stars + 1) + 0.3 * ln (real forks + 1)) * 0.1"
    by (simp add: calculate_repo_score_def)
qed

text \<open>
  C7 at a failing input. A record with 100 stars, 10 forks and the last-push
  timestamp \<open>2024-01-01 00:00:00\<close>, which is present but not of the form
  \<open>%Y-%m-%dT%H:%M:%SZ\<close>: \<open>calculate_repo_score\<close> returns 0.0, and not the score with
  the recency factor 0.1, \<open>(0.7 * ln 101 + 0.3 * ln 11) * 0.1\<close>, which is positive.
\<close>

theorem calculate_repo_score_unparseable_zero:
  "fixture_days_since ''2024-01-01 00:00:00'' = None
   \<and> calculate_repo_score fixture_days_since
     (JObj [(''stars'', JInt 100), (''forks'', JInt 10), (''pushed_at'', JStr ''2024-01-01 00:00:00'')])
     = 0
   \<and> calculate_repo_score fixture_days_since
     (JObj [(''stars'', JInt 100), (''forks'', JInt 10), (''pushed_at'', JStr ''2024-01-01 00:00:00'')])
     \<noteq> (0.7 * ln (100 + 1) + 0.3 * ln (10 + 1)) * 0.1"
proof -
  have z: "calculate_repo_score fixture_days_since
     (JObj [(''stars'', JInt 100), (''forks'', JInt 10), (''pushed_at'', JStr ''2024-01-01 00:00:00'')])
     = 0"
    by (simp add: calculate_repo_score_def score_body_def recency_score_def dict_get_def
        py_or_def fixture_days_since_def)
  have "0 < ln (101::real)" "0 < ln (11::real)" by (simp_all add: ln_gt_zero)
  then have "0 < (0.7 * ln (100 + 1) + 0.3 * ln (10 + 1)) * (0.1::real)"
    by (simp add: add_pos_pos)
  with z show ?thesis by (simp add: fixture_days_since_def)
qed

section \<open>Response Interpreter\<close>

lemma replace_all_absent: "c \<notin> set s \<Longrightarrow> replace_all (c # p) new s = s"
  by (induction s) (auto simp: starts_with_def)

lemma set_replace_all_delete: "set (replace_all old [] s) \<subseteq> set s"
proof (induction old "[] :: string" s rule: replace_all.induct)
  case (1 old)
  show ?case by simp
next
  case (2 old c cs)
  show ?case
  proof (cases "old \<noteq> [] \<and> starts_with old (c # cs)")
    case True
    with 2(1) have "set (replace_all old [] (drop (length old - 1) cs)) \<subseteq> set (drop (length old - 1) cs)"
      by simp
    also have "\<dots> \<subseteq> set cs" by (rule set_drop_subset)
    finally show ?thesis using True by auto
  next
    case False
    with 2(2) show ?thesis by auto
  qed
qed

lemma set_strip_fences: "set (strip_fences text) \<subseteq> set text"
  unfolding strip_fences_def
  using set_replace_all_delete [of "''```''" "replace_all ''```json'' [] text"]
    set_replace_all_delete [of "''```json''" "text"]
  by blast

lemma greedy_brace_span_no_brace: "CHR ''{'' \<notin> set s \<Longrightarrow> greedy_brace_span s = None"
proof -
  assume "CHR ''{'' \<notin> set s"
  then have d: "dropWhile (\<lambda>c. c \<noteq> CHR ''{'') s = []" by (auto simp: dropWhile_eq_Nil_conv)
  show ?thesis unfolding greedy_brace_span_def d by simp
qed

lemma action_span_no_brace: "CHR ''{'' \<notin> set s \<Longrightarrow> action_span s = None"
  by (induction s) auto

lemma search_after_absent: "\<not> occurs_in key s \<Longrightarrow> search_after here key s = None"
  by (induction s) auto

lemma method5_absent: \<open>\<not> occurs_in ''"action"'' c \<Longrightarrow> method5 loads c = None\<close>
  by (simp add: method5_def search_after_absent)

lemma pipeline_after_four_failures:
  assumes "loads (strip_fences text) = None"
    and "Option.bind (greedy_brace_span (strip_fences text)) loads = None"
    and "Option.bind (action_span (strip_fences text)) loads = None"
    and "loads (replace_all ''}}'' ''}'' (replace_all ''{{'' ''{'' (strip_fences text))) = None"
  shows "try_parse_json_from_llm_response loads last_action text =
           (case method5 loads (strip_fences text) of
              Some decision \<Rightarrow> decision
            | None \<Rightarrow> method6 last_action)"
  using assms by (simp add: try_parse_json_from_llm_response_def)

text \<open>
  C8, as the code has it. For a text without braces and without a quoted
  \<open>"action"\<close> key (once the code-fence markers are stripped) that \<open>json.loads\<close> rejects,
  the interpreter returns the empty dict when the last executed action is neither
  GENERATE_KEYWORDS nor SEARCH_GITHUB; after GENERATE_KEYWORDS it returns a
  SEARCH_GITHUB decision and after SEARCH_GITHUB a CALCULATE_SCORES decision
  (method 6).
\<close>

theorem prose_interpreted_by_last_action:
  assumes "CHR ''{'' \<notin> set text" and "CHR ''}'' \<notin> set text"
    and \<open>\<not> occurs_in ''"action"'' (strip_fences text)\<close>
    and "loads (strip_fences text) = None"
  shows "(last_action \<noteq> JStr ''GENERATE_KEYWORDS'' \<longrightarrow> last_action \<noteq> JStr ''SEARCH_GITHUB'' \<longrightarrow>
            try_parse_json_from_llm_response loads last_action text = JObj [])
       \<and> (last_action = JStr ''GENERATE_KEYWORDS'' \<longrightarrow>
            dict_get_action (try_parse_json_from_llm_response loads last_action text) = Some (JStr ''SEARCH_GITHUB''))
       \<and> (last_action = JStr ''SEARCH_GITHUB'' \<longrightarrow>
            dict_get_action (try_parse_json_from_llm_response loads last_action text) = Some (JStr ''CALCULATE_SCORES''))"
proof -
  let ?c = "strip_fences text"
  have open_c: "CHR ''{'' \<notin> set ?c" and close_c: "CHR ''}'' \<notin> set ?c"
    using assms(1,2) set_strip_fences [of "text"] by auto
  have m2: "Option.bind (greedy_brace_span ?c) loads = None"
    by (simp add: greedy_brace_span_no_brace [OF open_c])
  have m3: "Option.bind (action_span ?c) loads = None"
    by (simp add: action_span_no_brace [OF open_c])
  have "replace_all ''}}'' ''}'' (replace_all ''{{'' ''{'' ?c) = ?c"
    by (simp add: replace_all_absent [OF open_c] replace_all_absent [OF close_c])
  then have m4: "loads (replace_all ''}}'' ''}'' (replace_all ''{{'' ''{'' ?c)) = None"
    using assms(4) by simp
  have "try_parse_json_from_llm_response loads last_action text = method6 last_action"
    using pipeline_after_four_failures [OF assms(4) m2 m3 m4]
    by (simp add: method5_absent [OF assms(3)])
  then show ?thesis by (auto simp: method6_def dict_get_action_def)
qed

theorem prose_interpreted_by_last_action_witness:
  "try_parse_json_from_llm_response json_loads JNull ''No idea, maybe search again?'' = JObj []
   \<and> dict_get_action (try_parse_json_from_llm_response json_loads (JStr ''SEARCH_GITHUB'')
        ''No idea, maybe search again?'') = Some (JStr ''CALCULATE_SCORES'')"
proof -
  have h1: "CHR ''{'' \<notin> set ''No idea, maybe search again?''" by simp
  have h2: "CHR ''}'' \<notin> set ''No idea, maybe search again?''" by simp
  have h3: \<open>\<not> occurs_in ''"action"'' (strip_fences ''No idea, maybe search again?'')\<close> by code_simp
  have h4: "json_loads (strip_fences ''No idea, maybe search again?'') = None" by code_simp
  show ?thesis
    using prose_interpreted_by_last_action
        [where loads = json_loads and last_action = JNull, OF h1 h2 h3 h4]
      prose_interpreted_by_last_action
        [where loads = json_loads and last_action = "JStr ''SEARCH_GITHUB''", OF h1 h2 h3 h4]
    by simp
qed

theorem prose_not_empty_counterexample:
  \<open>CHR ''{'' \<notin> set ''I am not sure what to do next.''
   \<and> CHR ''}'' \<notin> set ''I am not sure what to do next.''
   \<and> \<not> occurs_in ''"action"'' ''I am not sure what to do next.''
   \<and> try_parse_json_from_llm_response json_loads (JStr ''GENERATE_KEYWORDS'')
        ''I am not sure what to do next.'' \<noteq> JObj []\<close>
  by code_simp

text \<open>
  C9, as the code has it. The strategies are tried in order, each only if the ones
  before it failed to parse (\<open>json.loads\<close> raised, or the pattern found no span), and
  the first value that parses is returned as it is, with or without an \<open>action\<close>
  key; only when the four parsing strategies have failed are the key-value patterns
  of method 5 and then the last-action rule of method 6 consulted.
\<close>

theorem pipeline_returns_first_parse:
  "(loads (strip_fences text) = Some j \<longrightarrow>
      try_parse_json_from_llm_response loads last_action text = j)
   \<and> (loads (strip_fences text) = None \<longrightarrow>
        Option.bind (greedy_brace_span (strip_fences text)) loads = Some j \<longrightarrow>
      try_parse_json_from_llm_response loads last_action text = j)
   \<and> (loads (strip_fences text) = None \<longrightarrow>
        Option.bind (greedy_brace_span (strip_fences text)) loads = None \<longrightarrow>
        Option.bind (action_span (strip_fences text)) loads = Some j \<longrightarrow>
      try_parse_json_from_llm_response loads last_action text = j)
   \<and> (loads (strip_fences text) = None \<longrightarrow>
        Option.bind (greedy_brace_span (strip_fences text)) loads = None \<longrightarrow>
        Option.bind (action_span (strip_fences text)) loads = None \<longrightarrow>
        loads (replace_all ''}}'' ''}'' (replace_all ''{{'' ''{'' (strip_fences text))) = Some j \<longrightarrow>
      try_parse_json_from_llm_response loads last_action text = j)
   \<and> (loads (strip_fences text) = None \<longrightarrow>
        Option.bind (greedy_brace_span (strip_fences text)) loads = None \<longrightarrow>
        Option.bind (action_span (strip_fences text)) loads = None \<longrightarrow>
        loads (replace_all ''}}'' ''}'' (replace_all ''{{'' ''{'' (strip_fences text))) = None \<longrightarrow>
      try_parse_json_from_llm_response loads last_action text =
        (case method5 loads (strip_fences text) of
           Some decision \<Rightarrow> decision
         | None \<Rightarrow> method6 last_action))"
  by (simp add: try_parse_json_from_llm_response_def)

theorem pipeline_returns_first_parse_witness:
  \<open>try_parse_json_from_llm_response json_loads JNull ''Result: {"status": "ok"} done''
     = JObj [(''status'', JStr ''ok'')]\<close>
proof -
  have h1: \<open>json_loads (strip_fences ''Result: {"status": "ok"} done'') = None\<close> by code_simp
  have h2: \<open>Option.bind (greedy_brace_span (strip_fences ''Result: {"status": "ok"} done'')) json_loads
              = Some (JObj [(''status'', JStr ''ok'')])\<close> by code_simp
  show ?thesis
    using pipeline_returns_first_parse
      [of json_loads \<open>''Result: {"status": "ok"} done''\<close> "JObj [(''status'', JStr ''ok'')]" JNull]
      h1 h2
    by simp
qed

theorem pipeline_action_check_counterexample:
  \<open>json_loads (strip_fences ''{"foo": 1}'') = Some (JObj [(''foo'', JInt 1)])
   \<and> \<not> has_key [(''foo'', JInt 1)] ''action''
   \<and> try_parse_json_from_llm_response json_loads JNull ''{"foo": 1}'' = JObj [(''foo'', JInt 1)]\<close>
  by code_simp

section \<open>Decision Engine\<close>

lemma decide_falls_back:
  assumes "format_state_summary s = Inr ()" and "format_history_summary h = Inr ()"
    and "llm_decision loads reply last_action s = None"
  shows "decide_next_action loads reply last_action h s = fallback_decision s"
  using assms by (simp add: decide_next_action_def)

lemma decide_takes_proposal:
  assumes "format_state_summary s = Inr ()" and "format_history_summary h = Inr ()"
    and "llm_decision loads reply last_action s = Some (a, p)"
  shows "decide_next_action loads reply last_action h s = Inr (Some (a, p))"
  using assms by (simp add: decide_next_action_def)

lemma llm_decision_SomeD:
  assumes "llm_decision loads reply last_action s = Some (a, p)"
  shows "\<exists>content d. reply = Inr content
           \<and> try_parse_json_from_llm_response loads last_action content = JObj d
           \<and> has_key d ''action'' \<and> a = dict_get d ''action'' (JStr [])
           \<and> p = dict_get d ''params'' (JObj [])
           \<and> (a = JStr ''GENERATE_REPORT'' \<longrightarrow> ranked_repos s \<noteq> [])"
  using assms
  by (auto simp: llm_decision_def Let_def split: sum.splits json.splits if_splits)

lemma fallback_enumerated:
  assumes "first_result_has_url s"
  shows "\<exists>a p. fallback_decision s = Inr (Some (JStr a, JObj p)) \<and> a \<in> set action_names"
proof (cases "web_search_results s \<noteq> [] \<and> candidate_repos s = [] \<and> keywords_list s \<noteq> []
    \<and> github_repos s \<noteq> [] \<and> web_queries s \<noteq> []")
  case True
  then obtain r rs where r: "web_search_results s = r # rs" by (cases "web_search_results s") auto
  with assms obtain d where d: "r = JObj d" "has_key d ''url''"
    by (auto simp: first_result_has_url_def split: json.splits)
  from True r d show ?thesis
    by (simp add: fallback_decision_def extract_links_decision_def action_names_def)
next
  case False
  then show ?thesis
    by (auto simp: fallback_decision_def action_names_def split: list.splits)
qed

text \<open>
  The decision tree rule by rule: each rule decides when its guard holds and the
  guards before it fail; whenever the model path yields no decision the Decision
  Engine returns the tree's choice, whatever reply, history and last action are.
  Rule 5 is stated here for a first web result that is a dict with a \<open>url\<close>.
\<close>

lemma fallback_precedence_chain:
  "(keywords_list s = [] \<longrightarrow>
      fallback_decision s = Inr (Some (JStr ''GENERATE_KEYWORDS'', JObj [])))
   \<and> (keywords_list s \<noteq> [] \<longrightarrow> github_repos s = [] \<longrightarrow>
      fallback_decision s = Inr (Some (JStr ''SEARCH_GITHUB'', JObj [(''keywords'', JArr (keywords_list s))])))
   \<and> (keywords_list s \<noteq> [] \<longrightarrow> github_repos s \<noteq> [] \<longrightarrow> web_queries s = [] \<longrightarrow>
      fallback_decision s = Inr (Some (JStr ''GENERATE_WEB_QUERIES'', JObj [])))
   \<and> (keywords_list s \<noteq> [] \<longrightarrow> github_repos s \<noteq> [] \<longrightarrow> web_queries s = q # qs \<longrightarrow>
        web_search_results s = [] \<longrightarrow>
      fallback_decision s = Inr (Some (JStr ''SEARCH_WEB'', JObj [(''query'', q)])))
   \<and> (keywords_list s \<noteq> [] \<longrightarrow> github_repos s \<noteq> [] \<longrightarrow> web_queries s \<noteq> [] \<longrightarrow>
        web_search_results s = JObj d # rs \<longrightarrow> has_key d ''url'' \<longrightarrow> candidate_repos s = [] \<longrightarrow>
      fallback_decision s =
        Inr (Some (JStr ''EXTRACT_GITHUB_LINKS'', JObj [(''url'', dict_get d ''url'' JNull)])))
   \<and> (keywords_list s \<noteq> [] \<longrightarrow> github_repos s \<noteq> [] \<longrightarrow> web_queries s \<noteq> [] \<longrightarrow>
        web_search_results s \<noteq> [] \<longrightarrow> candidate_repos s \<noteq> [] \<longrightarrow> ranked_repos s = [] \<longrightarrow>
      fallback_decision s = Inr (Some (JStr ''CALCULATE_SCORES'', JObj [])))
   \<and> (keywords_list s \<noteq> [] \<longrightarrow> github_repos s \<noteq> [] \<longrightarrow> web_queries s \<noteq> [] \<longrightarrow>
        web_search_results s \<noteq> [] \<longrightarrow> candidate_repos s \<noteq> [] \<longrightarrow> ranked_repos s \<noteq> [] \<longrightarrow>
        final_report s = [] \<longrightarrow>
      fallback_decision s = Inr (Some (JStr ''GENERATE_REPORT'', JObj [])))
   \<and> (keywords_list s \<noteq> [] \<longrightarrow> github_repos s \<noteq> [] \<longrightarrow> web_queries s \<noteq> [] \<longrightarrow>
        web_search_results s \<noteq> [] \<longrightarrow> candidate_repos s \<noteq> [] \<longrightarrow> ranked_repos s \<noteq> [] \<longrightarrow>
        final_report s \<noteq> [] \<longrightarrow>
      fallback_decision s = Inr (Some (JStr ''COMPLETE'', JObj [])))
   \<and> (format_state_summary s = Inr () \<longrightarrow> format_history_summary h = Inr () \<longrightarrow>
        llm_decision loads reply last_action s = None \<longrightarrow>
      decide_next_action loads reply last_action h s = fallback_decision s)"
proof -
  have "format_state_summary s = Inr () \<longrightarrow> format_history_summary h = Inr () \<longrightarrow>
        llm_decision loads reply last_action s = None \<longrightarrow>
      decide_next_action loads reply last_action h s = fallback_decision s"
    using decide_falls_back by blast
  then show ?thesis
    by (simp add: fallback_decision_def extract_links_decision_def)
qed



lemma decide_accepts_proposal:
  assumes "format_state_summary s = Inr ()" and "format_history_summary h = Inr ()"
    and "reply = Inr content"
    and "try_parse_json_from_llm_response loads last_action content = JObj d"
    and "has_key d ''action''"
    and "dict_get d ''action'' (JStr []) \<noteq> JStr ''GENERATE_REPORT'' \<or> ranked_repos s \<noteq> []"
  shows "decide_next_action loads reply last_action h s
           = Inr (Some (dict_get d ''action'' (JStr []), dict_get d ''params'' (JObj [])))"
proof -
  from assms(5) have "d \<noteq> []" by (auto simp: has_key_def)
  with assms(3-6) have "llm_decision loads reply last_action s
      = Some (dict_get d ''action'' (JStr []), dict_get d ''params'' (JObj []))"
    by (auto simp: llm_decision_def Let_def)
  then show ?thesis by (rule decide_takes_proposal [OF assms(1,2)])
qed

lemma decide_rejects_report_without_ranking:
  assumes "format_state_summary s = Inr ()" and "format_history_summary h = Inr ()"
    and "reply = Inr content"
    and "try_parse_json_from_llm_response loads last_action content = JObj d"
    and "dict_get d ''action'' (JStr []) = JStr ''GENERATE_REPORT''" and "ranked_repos s = []"
  shows "decide_next_action loads reply last_action h s = fallback_decision s"
proof -
  from assms(3-6) have "llm_decision loads reply last_action s = None"
    by (auto simp: llm_decision_def Let_def)
  then show ?thesis by (rule decide_falls_back [OF assms(1,2)])
qed

lemma decide_without_proposal:
  assumes "format_state_summary s = Inr ()" and "format_history_summary h = Inr ()"
    and "reply = Inl err
         \<or> (\<exists>content. reply = Inr content
               \<and> (\<forall>d. try_parse_json_from_llm_response loads last_action content = JObj d
                        \<longrightarrow> \<not> has_key d ''action''))"
  shows "decide_next_action loads reply last_action h s = fallback_decision s"
proof -
  from assms(3) have "llm_decision loads reply last_action s = None"
    by (auto simp: llm_decision_def Let_def split: json.splits)
  then show ?thesis by (rule decide_falls_back [OF assms(1,2)])
qed

text \<open>
  C2, as the code has it. When the two summaries can be formatted: a reply that the
  interpreter turns into a dict with an \<open>action\<close> key is accepted, and the Decision
  Engine returns the value of that key and the value of the \<open>params\<close> key (the empty
  dict when absent) as they stand, whatever they are; the only proposal turned down
  is GENERATE_REPORT without ranked repositories. A reply that is turned down, that
  could not be obtained, or that gives no dict with an \<open>action\<close> key leaves the
  decision to the fallback, and when the first web result carries a \<open>url\<close> the
  fallback returns one of the nine enumerated actions with a params dict.
\<close>

theorem decide_proposal_or_enumerated:
  assumes "format_state_summary s = Inr ()" and "format_history_summary h = Inr ()"
  shows "(reply = Inr content \<longrightarrow>
            try_parse_json_from_llm_response loads last_action content = JObj d \<longrightarrow>
            has_key d ''action'' \<longrightarrow>
            (dict_get d ''action'' (JStr []) \<noteq> JStr ''GENERATE_REPORT'' \<or> ranked_repos s \<noteq> []) \<longrightarrow>
            decide_next_action loads reply last_action h s
              = Inr (Some (dict_get d ''action'' (JStr []), dict_get d ''params'' (JObj []))))
       \<and> (reply = Inr content \<longrightarrow>
            try_parse_json_from_llm_response loads last_action content = JObj d \<longrightarrow>
            dict_get d ''action'' (JStr []) = JStr ''GENERATE_REPORT'' \<longrightarrow> ranked_repos s = [] \<longrightarrow>
            decide_next_action loads reply last_action h s = fallback_decision s)
       \<and> ((reply = Inl err
             \<or> (\<exists>c. reply = Inr c
                   \<and> (\<forall>d'. try_parse_json_from_llm_response loads last_action c = JObj d'
                            \<longrightarrow> \<not> has_key d' ''action''))) \<longrightarrow>
            decide_next_action loads reply last_action h s = fallback_decision s)
       \<and> (first_result_has_url s \<longrightarrow>
            (\<exists>name params. fallback_decision s = Inr (Some (JStr name, JObj params))
                  \<and> name \<in> set action_names))
       \<and> (llm_decision loads reply last_action s = Some (a, p) \<longrightarrow>
            decide_next_action loads reply last_action h s = Inr (Some (a, p))
            \<and> (\<exists>content d. reply = Inr content
                  \<and> try_parse_json_from_llm_response loads last_action content = JObj d
                  \<and> has_key d ''action'' \<and> a = dict_get d ''action'' (JStr [])
                  \<and> p = dict_get d ''params'' (JObj []))
            \<and> (a = JStr ''GENERATE_REPORT'' \<longrightarrow> ranked_repos s \<noteq> []))
       \<and> (llm_decision loads reply last_action s = None \<longrightarrow> first_result_has_url s \<longrightarrow>
            (\<exists>name params. decide_next_action loads reply last_action h s = Inr (Some (JStr name, JObj params))
                  \<and> name \<in> set action_names))"
proof (intro conjI impI)
  assume "reply = Inr content"
    and "try_parse_json_from_llm_response loads last_action content = JObj d"
    and "has_key d ''action''"
    and "dict_get d ''action'' (JStr []) \<noteq> JStr ''GENERATE_REPORT'' \<or> ranked_repos s \<noteq> []"
  then show "decide_next_action loads reply last_action h s
      = Inr (Some (dict_get d ''action'' (JStr []), dict_get d ''params'' (JObj [])))"
    by (rule decide_accepts_proposal [OF assms])
next
  assume "reply = Inr content"
    and "try_parse_json_from_llm_response loads last_action content = JObj d"
    and "dict_get d ''action'' (JStr []) = JStr ''GENERATE_REPORT''" and "ranked_repos s = []"
  then show "decide_next_action loads reply last_action h s = fallback_decision s"
    by (rule decide_rejects_report_without_ranking [OF assms])
next
  assume "reply = Inl err
      \<or> (\<exists>c. reply = Inr c
            \<and> (\<forall>d'. try_parse_json_from_llm_response loads last_action c = JObj d'
                     \<longrightarrow> \<not> has_key d' ''action''))"
  then show "decide_next_action loads reply last_action h s = fallback_decision s"
    by (rule decide_without_proposal [OF assms])
next
  assume "first_result_has_url s"
  then show "\<exists>name params. fallback_decision s = Inr (Some (JStr name, JObj params))
      \<and> name \<in> set action_names"
    by (rule fallback_enumerated)
next
  assume l: "llm_decision loads reply last_action s = Some (a, p)"
  show "decide_next_action loads reply last_action h s = Inr (Some (a, p))"
    by (rule decide_takes_proposal [OF assms l])
  from llm_decision_SomeD [OF l]
  show "\<exists>content d. reply = Inr content
          \<and> try_parse_json_from_llm_response loads last_action content = JObj d
          \<and> has_key d ''action'' \<and> a = dict_get d ''action'' (JStr [])
          \<and> p = dict_get d ''params'' (JObj [])"
    by blast
  from llm_decision_SomeD [OF l]
  show "ranked_repos s \<noteq> []" if "a = JStr ''GENERATE_REPORT''" using that by blast
next
  assume l: "llm_decision loads reply last_action s = None" and u: "first_result_has_url s"
  from fallback_enumerated [OF u] decide_falls_back [OF assms l]
  show "\<exists>name params. decide_next_action loads reply last_action h s = Inr (Some (JStr name, JObj params))
          \<and> name \<in> set action_names"
    by simp
qed

theorem decide_proposal_or_enumerated_witness:
  \<open>decide_next_action json_loads (Inr ''{"action": "SEARCH_WEB", "params": {"query": "k8s"}}'') JNull []
       fixture_searched
     = Inr (Some (JStr ''SEARCH_WEB'', JObj [(''query'', JStr ''k8s'')]))
   \<and> decide_next_action json_loads (Inr ''{"action": "GENERATE_REPORT"}'') JNull [] fixture_searched
     = fallback_decision fixture_searched
   \<and> (\<exists>name params. decide_next_action json_loads (Inl (PyError ''timeout'')) JNull [] fixture_web_found
          = Inr (Some (JStr name, JObj params)) \<and> name \<in> set action_names)\<close>
proof -
  have f1: "format_state_summary fixture_searched = Inr ()"
    and f2: "format_state_summary fixture_web_found = Inr ()"
    and fh: "format_history_summary [] = Inr ()"
    by (simp_all add: format_state_summary_def format_history_summary_def
        fixture_web_found_def fixture_searched_def)
  have p1: \<open>try_parse_json_from_llm_response json_loads JNull
      ''{"action": "SEARCH_WEB", "params": {"query": "k8s"}}''
      = JObj [(''action'', JStr ''SEARCH_WEB''), (''params'', JObj [(''query'', JStr ''k8s'')])]\<close>
    by code_simp
  have p2: \<open>try_parse_json_from_llm_response json_loads JNull ''{"action": "GENERATE_REPORT"}''
      = JObj [(''action'', JStr ''GENERATE_REPORT'')]\<close>
    by code_simp
  have r: "ranked_repos fixture_searched = []" by (simp add: fixture_searched_def)
  have u: "first_result_has_url fixture_web_found" by code_simp
  have a: \<open>decide_next_action json_loads (Inr ''{"action": "SEARCH_WEB", "params": {"query": "k8s"}}'')
      JNull [] fixture_searched = Inr (Some (JStr ''SEARCH_WEB'', JObj [(''query'', JStr ''k8s'')]))\<close>
    using decide_proposal_or_enumerated [OF f1 fh, where loads = json_loads and last_action = JNull
        and reply = \<open>Inr ''{"action": "SEARCH_WEB", "params": {"query": "k8s"}}''\<close>
        and content = \<open>''{"action": "SEARCH_WEB", "params": {"query": "k8s"}}''\<close>
        and d = "[(''action'', JStr ''SEARCH_WEB''), (''params'', JObj [(''query'', JStr ''k8s'')])]"] p1
    by (simp add: has_key_def dict_get_def)
  have b: \<open>decide_next_action json_loads (Inr ''{"action": "GENERATE_REPORT"}'') JNull [] fixture_searched
      = fallback_decision fixture_searched\<close>
    using decide_proposal_or_enumerated [OF f1 fh, where loads = json_loads and last_action = JNull
        and reply = \<open>Inr ''{"action": "GENERATE_REPORT"}''\<close>
        and content = \<open>''{"action": "GENERATE_REPORT"}''\<close>
        and d = "[(''action'', JStr ''GENERATE_REPORT'')]"] p2 r
    by (simp add: has_key_def dict_get_def)
  have c: "\<exists>name params. decide_next_action json_loads (Inl (PyError ''timeout'')) JNull [] fixture_web_found
          = Inr (Some (JStr name, JObj params)) \<and> name \<in> set action_names"
    using decide_proposal_or_enumerated [OF f2 fh, where loads = json_loads and last_action = JNull
        and reply = "Inl (PyError ''timeout'')" and err = "PyError ''timeout''"] u
    by auto
  from a b c show ?thesis by blast
qed

theorem decide_not_enumerated_counterexample:
  \<open>decide_next_action json_loads (Inr ''{"action": "DANCE", "params": {}}'') JNull []
       (initial_state ''containerization'')
     = Inr (Some (JStr ''DANCE'', JObj []))
   \<and> ''DANCE'' \<notin> set action_names
   \<and> decide_next_action json_loads (Inl (PyError ''timeout'')) JNull [] fixture_web_no_url = Inr None\<close>
  by code_simp

section \<open>Scoring pass\<close>

lemma execute_calculate_scores:
  "execute_action t (JStr ''CALCULATE_SCORES'') params s = RList (calculate_scores t s)"
  by (simp add: execute_action_def)

lemma calculate_scores_ranked_update:
  "calculate_scores t (s\<lparr>ranked_repos := r\<rparr>) = calculate_scores t s"
  by (simp add: calculate_scores_def)

lemma update_state_calculate_scores:
  "update_state s (JStr ''CALCULATE_SCORES'') (RList r) = (if r = [] then s else s\<lparr>ranked_repos := r\<rparr>)"
  by (simp add: update_state_def)

lemma scoring_pass_eq:
  "scoring_pass t params s =
     (if calculate_scores t s = [] then s else s\<lparr>ranked_repos := calculate_scores t s\<rparr>)"
  by (simp add: scoring_pass_def execute_calculate_scores update_state_calculate_scores)

lemma calculate_scores_scoring_pass:
  "calculate_scores t (scoring_pass t params s) = calculate_scores t s"
  by (simp add: scoring_pass_eq calculate_scores_ranked_update)

lemma calculate_scores_sorted:
  "sorted_wrt (\<lambda>x y. score_key y \<le> score_key x) (calculate_scores t s)"
proof -
  have "sorted (map (\<lambda>x. - score_key x) (take 10 (sort_key (\<lambda>x. - score_key x) xs)))" for xs :: "json list"
    by (simp add: take_map [symmetric] sorted_wrt_take)
  then have "sorted_wrt (\<lambda>x y. score_key y \<le> score_key x) (take 10 (sort_key (\<lambda>x. - score_key x) xs))"
    for xs :: "json list"
    by (simp add: sorted_map)
  then show ?thesis by (simp add: calculate_scores_def Let_def)
qed

lemma calculate_scores_length: "length (calculate_scores t s) \<le> 10"
  by (simp add: calculate_scores_def Let_def)

text \<open>
  C10. A second CALCULATE_SCORES dispatch on the state left by the first one, with
  the same tools and clock, computes the same result and leaves the state as it is:
  \<open>ranked_repos\<close> is the same sequence, nothing is appended. A non-empty result
  replaces \<open>ranked_repos\<close> wholesale; it is sorted by descending score and has at most
  ten entries.
\<close>

theorem calculate_scores_idempotent:
  "execute_action t (JStr ''CALCULATE_SCORES'') params' (scoring_pass t params s)
     = execute_action t (JStr ''CALCULATE_SCORES'') params s
   \<and> scoring_pass t params' (scoring_pass t params s) = scoring_pass t params s
   \<and> ranked_repos (scoring_pass t params' (scoring_pass t params s))
       = ranked_repos (scoring_pass t params s)
   \<and> (execute_action t (JStr ''CALCULATE_SCORES'') params s = RList r \<longrightarrow> r \<noteq> [] \<longrightarrow>
        ranked_repos (scoring_pass t params s) = r
        \<and> length r \<le> 10
        \<and> sorted_wrt (\<lambda>x y. score_key y \<le> score_key x) r)"
proof -
  have same: "execute_action t (JStr ''CALCULATE_SCORES'') params' (scoring_pass t params s)
      = execute_action t (JStr ''CALCULATE_SCORES'') params s"
    by (simp add: execute_calculate_scores calculate_scores_scoring_pass)
  have idem: "scoring_pass t params' (scoring_pass t params s) = scoring_pass t params s"
    by (simp add: scoring_pass_eq calculate_scores_ranked_update)
  have repl: "ranked_repos (scoring_pass t params s) = r \<and> length r \<le> 10
      \<and> sorted_wrt (\<lambda>x y. score_key y \<le> score_key x) r"
    if "execute_action t (JStr ''CALCULATE_SCORES'') params s = RList r" "r \<noteq> []"
  proof -
    from that(1) have r: "r = calculate_scores t s" by (simp add: execute_calculate_scores)
    with that(2) show ?thesis
      using calculate_scores_sorted [of t s] calculate_scores_length [of t s]
      by (simp add: scoring_pass_eq)
  qed
  from same idem repl show ?thesis by simp
qed

theorem calculate_scores_idempotent_witness:
  "ranked_repos (scoring_pass fixture_tools (JObj []) (scoring_pass fixture_tools (JObj []) fixture_web_found))
     = ranked_repos (scoring_pass fixture_tools (JObj []) fixture_web_found)
   \<and> length (ranked_repos (scoring_pass fixture_tools (JObj []) fixture_web_found)) = 1"
proof -
  have l: "length (calculate_scores fixture_tools fixture_web_found) = 1" by code_simp
  then have r: "calculate_scores fixture_tools fixture_web_found \<noteq> []" by auto
  show ?thesis
    using calculate_scores_idempotent
      [of fixture_tools "JObj []" "JObj []" fixture_web_found "calculate_scores fixture_tools fixture_web_found"]
      r l
    by (simp add: execute_calculate_scores)
qed

section \<open>Orchestration Loop\<close>

lemma agent_loop_complete:
  assumes "iterations < max_iterations"
    and "decide_next_action (json_loads_of e) (llm_reply e (Suc iterations)) last_action h s
           = Inr (Some (JStr ''COMPLETE'', p))"
  shows "agent_loop e iterations s h last_action = (Completed, s, h, last_action)"
  using assms by (subst agent_loop.simps) simp

text \<open>
  Where the loop ends: the counter value \<open>n\<close> at the exit accounts for the history
  entries appended, and tells the three exits apart.
\<close>

lemma agent_loop_exit:
  assumes "agent_loop e iterations s h last_action = (ex, s', h', la')"
    and "iterations \<le> max_iterations"
  shows "\<exists>n. iterations \<le> n \<and> n \<le> max_iterations \<and> length h' = length h + (n - iterations)
           \<and> (ex = Exhausted \<longrightarrow> n = max_iterations)
           \<and> (ex = Completed \<longrightarrow> n < max_iterations
                 \<and> (\<exists>p. decide_next_action (json_loads_of e) (llm_reply e (Suc n)) la' h' s'
                            = Inr (Some (JStr ''COMPLETE'', p))))
           \<and> (\<forall>err. ex = Crashed err \<longrightarrow> n < max_iterations
                 \<and> (decide_next_action (json_loads_of e) (llm_reply e (Suc n)) la' h' s' = Inl err
                      \<or> decide_next_action (json_loads_of e) (llm_reply e (Suc n)) la' h' s' = Inr None))"
  using assms
proof (induction e iterations s h last_action rule: agent_loop.induct)
  case (1 e iterations s h last_action)
  show ?case
  proof (cases "iterations < max_iterations")
    case False
    with "1.prems" have "ex = Exhausted" "s' = s" "h' = h" "la' = last_action" "iterations = max_iterations"
      by (simp_all add: agent_loop.simps [of e iterations])
    then show ?thesis by auto
  next
    case lt: True
    show ?thesis
    proof (cases "decide_next_action (json_loads_of e) (llm_reply e (Suc iterations)) last_action h s")
      case (Inl err)
      with lt "1.prems" have "ex = Crashed err" "s' = s" "h' = h" "la' = last_action"
        by (simp_all add: agent_loop.simps [of e iterations])
      with lt Inl show ?thesis by (intro exI [of _ iterations]) auto
    next
      case (Inr dec)
      show ?thesis
      proof (cases dec)
        case None
        with Inr lt "1.prems" have "\<exists>err. ex = Crashed err" "s' = s" "h' = h" "la' = last_action"
          by (auto simp: agent_loop.simps [of e iterations])
        with lt Inr None show ?thesis by (intro exI [of _ iterations]) auto
      next
        case (Some ap)
        obtain action params where ap: "ap = (action, params)" by (cases ap)
        show ?thesis
        proof (cases "action = JStr ''COMPLETE''")
          case True
          with Inr Some ap lt "1.prems" have "ex = Completed" "s' = s" "h' = h" "la' = last_action"
            by (simp_all add: agent_loop.simps [of e iterations])
          with lt Inr Some ap True show ?thesis by (intro exI [of _ iterations]) auto
        next
          case False
          let ?result = "execute_action (tools_at e (Suc iterations)) action params s"
          have rec: "agent_loop e (Suc iterations) (update_state s action ?result)
              (h @ [(action, params, summarize_result ?result)]) action = (ex, s', h', la')"
            using Inr Some ap lt False "1.prems"(1)
            by (simp add: agent_loop.simps [of e iterations] Let_def)
          from "1.IH" [OF lt Inr Some ap [symmetric] False refl rec] lt
          obtain n where n: "Suc iterations \<le> n" "n \<le> max_iterations"
            "length h' = length (h @ [(action, params, summarize_result ?result)]) + (n - Suc iterations)"
            "ex = Exhausted \<longrightarrow> n = max_iterations"
            "ex = Completed \<longrightarrow> n < max_iterations
                 \<and> (\<exists>p. decide_next_action (json_loads_of e) (llm_reply e (Suc n)) la' h' s'
                            = Inr (Some (JStr ''COMPLETE'', p)))"
            "\<forall>err. ex = Crashed err \<longrightarrow> n < max_iterations
                 \<and> (decide_next_action (json_loads_of e) (llm_reply e (Suc n)) la' h' s' = Inl err
                      \<or> decide_next_action (json_loads_of e) (llm_reply e (Suc n)) la' h' s' = Inr None)"
            by auto
          from n(1,3) have "length h' = length h + (n - iterations)" by simp
          with n show ?thesis by (intro exI [of _ n]) auto
        qed
      qed
    qed
  qed
qed

text \<open>
  C4, as the code has it. From the start of a run the loop dispatches at most 10
  actions (one history entry each). It ends by a decided COMPLETE, by exhausting the
  bound after exactly 10 dispatches, or by an exception of the Decision Engine
  that leaves the loop for the handler of \<open>run\<close>. When the decided action is COMPLETE
  the loop ends at once with state, history and last action unchanged.
\<close>

theorem loop_bounded_three_exits:
  "(agent_loop e 0 (initial_state d) [] JNull = (ex, s', h', la') \<longrightarrow>
      length h' \<le> 10
      \<and> (ex = Exhausted \<longrightarrow> length h' = 10)
      \<and> (ex = Completed \<longrightarrow>
            (\<exists>p. decide_next_action (json_loads_of e) (llm_reply e (Suc (length h'))) la' h' s'
                    = Inr (Some (JStr ''COMPLETE'', p))))
      \<and> (\<forall>err. ex = Crashed err \<longrightarrow> length h' < 10
            \<and> (decide_next_action (json_loads_of e) (llm_reply e (Suc (length h'))) la' h' s' = Inl err
                 \<or> decide_next_action (json_loads_of e) (llm_reply e (Suc (length h'))) la' h' s' = Inr None)))
   \<and> (iterations < max_iterations \<longrightarrow>
        decide_next_action (json_loads_of e) (llm_reply e (Suc iterations)) last_action h s
          = Inr (Some (JStr ''COMPLETE'', p)) \<longrightarrow>
        agent_loop e iterations s h last_action = (Completed, s, h, last_action))"
proof (intro conjI impI)
  assume a: "agent_loop e 0 (initial_state d) [] JNull = (ex, s', h', la')"
  from agent_loop_exit [OF a]
  obtain n where n: "n \<le> max_iterations" "length h' = n"
    "ex = Exhausted \<longrightarrow> n = max_iterations"
    "ex = Completed \<longrightarrow> n < max_iterations
       \<and> (\<exists>p. decide_next_action (json_loads_of e) (llm_reply e (Suc n)) la' h' s'
                  = Inr (Some (JStr ''COMPLETE'', p)))"
    "\<forall>err. ex = Crashed err \<longrightarrow> n < max_iterations
       \<and> (decide_next_action (json_loads_of e) (llm_reply e (Suc n)) la' h' s' = Inl err
            \<or> decide_next_action (json_loads_of e) (llm_reply e (Suc n)) la' h' s' = Inr None)"
    by auto
  from n show "length h' \<le> 10" by (simp add: max_iterations_def)
  from n show "length h' = 10" if "ex = Exhausted" using that by (simp add: max_iterations_def)
  from n show "\<exists>p. decide_next_action (json_loads_of e) (llm_reply e (Suc (length h'))) la' h' s'
                    = Inr (Some (JStr ''COMPLETE'', p))" if "ex = Completed"
    using that by auto
  from n show "\<forall>err. ex = Crashed err \<longrightarrow> length h' < 10
            \<and> (decide_next_action (json_loads_of e) (llm_reply e (Suc (length h'))) la' h' s' = Inl err
                 \<or> decide_next_action (json_loads_of e) (llm_reply e (Suc (length h'))) la' h' s' = Inr None)"
    by (auto simp: max_iterations_def)
next
  assume "iterations < max_iterations"
    and "decide_next_action (json_loads_of e) (llm_reply e (Suc iterations)) last_action h s
          = Inr (Some (JStr ''COMPLETE'', p))"
  then show "agent_loop e iterations s h last_action = (Completed, s, h, last_action)"
    by (rule agent_loop_complete)
qed

theorem loop_bounded_three_exits_witness:
  "length (fst (snd (snd (agent_loop fixture_env_offline 0 (initial_state ''containerization'') [] JNull)))) \<le> 10
   \<and> agent_loop fixture_env_offline 0 fixture_reported [] JNull = (Completed, fixture_reported, [], JNull)"
proof -
  let ?X = "agent_loop fixture_env_offline 0 (initial_state ''containerization'') [] JNull"
  have x: "?X = (fst ?X, fst (snd ?X), fst (snd (snd ?X)), snd (snd (snd ?X)))" by simp
  have lt: "0 < max_iterations" by (simp add: max_iterations_def)
  have c: "decide_next_action (json_loads_of fixture_env_offline) (llm_reply fixture_env_offline (Suc 0))
      JNull [] fixture_reported = Inr (Some (JStr ''COMPLETE'', JObj []))"
    by code_simp
  show ?thesis
    using loop_bounded_three_exits [where e = fixture_env_offline and d = "''containerization''"
        and ex = "fst ?X" and s' = "fst (snd ?X)" and h' = "fst (snd (snd ?X))"
        and la' = "snd (snd (snd ?X))" and iterations = 0 and last_action = JNull and h = "[]"
        and s = fixture_reported and p = "JObj []"] x lt c
    by blast
qed

theorem loop_exception_exit_counterexample:
  "fst (agent_loop fixture_env_bad_params 0 (initial_state ''containerization'') [] JNull)
     = Crashed (PyError ''object has no attribute items'')
   \<and> length (fst (snd (snd (agent_loop fixture_env_bad_params 0
        (initial_state ''containerization'') [] JNull)))) = 1"
  by code_simp

section \<open>A stored report has ranked repositories behind it\<close>

lemma fallback_generate_report:
  "fallback_decision s = Inr (Some (JStr ''GENERATE_REPORT'', p)) \<Longrightarrow> ranked_repos s \<noteq> []"
  by (auto simp: fallback_decision_def extract_links_decision_def
      split: if_splits list.splits json.splits)

lemma decide_generate_report:
  assumes "decide_next_action loads reply last_action h s = Inr (Some (JStr ''GENERATE_REPORT'', p))"
  shows "ranked_repos s \<noteq> []"
proof (cases "llm_decision loads reply last_action s")
  case None
  with assms have "fallback_decision s = Inr (Some (JStr ''GENERATE_REPORT'', p))"
    by (auto simp: decide_next_action_def split: sum.splits)
  then show ?thesis by (rule fallback_generate_report)
next
  case (Some ap)
  with assms have "llm_decision loads reply last_action s = Some (JStr ''GENERATE_REPORT'', p)"
    by (auto simp: decide_next_action_def split: sum.splits)
  from llm_decision_SomeD [OF this] show ?thesis by blast
qed

lemma update_state_keeps_ranking:
  "ranked_repos s \<noteq> [] \<Longrightarrow> ranked_repos (update_state s action result) \<noteq> []"
  by (auto simp: update_state_def Let_def split: result.splits)

lemma update_state_keeps_report:
  "action \<noteq> JStr ''GENERATE_REPORT'' \<Longrightarrow>
     final_report (update_state s action result) = final_report s"
  by (auto simp: update_state_def Let_def split: result.splits)

lemma update_state_invariant:
  assumes "final_report s \<noteq> [] \<longrightarrow> ranked_repos s \<noteq> []"
    and "action = JStr ''GENERATE_REPORT'' \<longrightarrow> ranked_repos s \<noteq> []"
  shows "final_report (update_state s action result) \<noteq> [] \<longrightarrow>
           ranked_repos (update_state s action result) \<noteq> []"
proof (cases "action = JStr ''GENERATE_REPORT''")
  case True
  with assms(2) show ?thesis by (simp add: update_state_keeps_ranking)
next
  case False
  with assms(1) show ?thesis
    by (simp add: update_state_keeps_report update_state_keeps_ranking)
qed

lemma reachable_invariant:
  "reachable e d iterations s h last_action \<Longrightarrow> final_report s \<noteq> [] \<longrightarrow> ranked_repos s \<noteq> []"
proof (induction rule: reachable.induct)
  case reach_start
  show ?case by (simp add: initial_state_def)
next
  case (reach_step iterations s h last_action action params result)
  have "action = JStr ''GENERATE_REPORT'' \<longrightarrow> ranked_repos s \<noteq> []"
    using reach_step.hyps(3) decide_generate_report by blast
  with reach_step.IH show ?case by (rule update_state_invariant)
qed

lemma agent_loop_reachable:
  assumes "agent_loop e iterations s h last_action = (ex, s', h', la')"
    and "reachable e d iterations s h last_action"
  shows "\<exists>n. reachable e d n s' h' la'"
  using assms
proof (induction e iterations s h last_action rule: agent_loop.induct)
  case (1 e iterations s h last_action)
  show ?case
  proof (cases "iterations < max_iterations")
    case False
    with "1.prems" show ?thesis by (auto simp: agent_loop.simps [of e iterations])
  next
    case lt: True
    show ?thesis
    proof (cases "decide_next_action (json_loads_of e) (llm_reply e (Suc iterations)) last_action h s")
      case (Inl err)
      with lt "1.prems" show ?thesis by (auto simp: agent_loop.simps [of e iterations])
    next
      case (Inr dec)
      show ?thesis
      proof (cases dec)
        case None
        with Inr lt "1.prems" show ?thesis by (auto simp: agent_loop.simps [of e iterations])
      next
        case (Some ap)
        obtain action params where ap: "ap = (action, params)" by (cases ap)
        show ?thesis
        proof (cases "action = JStr ''COMPLETE''")
          case True
          with Inr Some ap lt "1.prems" show ?thesis
            by (auto simp: agent_loop.simps [of e iterations])
        next
          case False
          let ?result = "execute_action (tools_at e (Suc iterations)) action params s"
          have rec: "agent_loop e (Suc iterations) (update_state s action ?result)
              (h @ [(action, params, summarize_result ?result)]) action = (ex, s', h', la')"
            using Inr Some ap lt False "1.prems"(1)
            by (simp add: agent_loop.simps [of e iterations] Let_def)
          have "reachable e d (Suc iterations) (update_state s action ?result)
              (h @ [(action, params, summarize_result ?result)]) action"
            using "1.prems"(2) lt Inr Some ap False by (intro reach_step) simp_all
          from "1.IH" [OF lt Inr Some ap [symmetric] False refl rec this] show ?thesis .
        qed
      qed
    qed
  qed
qed

lemma finalize_report_invariant:
  assumes "final_report s \<noteq> [] \<longrightarrow> ranked_repos s \<noteq> []"
    and "finalize_report t s = Inr s''"
  shows "final_report s'' \<noteq> [] \<longrightarrow> ranked_repos s'' \<noteq> []"
  using assms by (auto simp: finalize_report_def split: if_splits option.splits)

text \<open>
  C5. In every configuration the loop reaches, in the state with which it is
  left, and in the state after the report synthesis behind the loop, a non-empty
  \<open>final_report\<close> comes with a non-empty \<open>ranked_repos\<close>; the synthesis stores a report
  only when \<open>ranked_repos\<close> is non-empty.
\<close>

theorem report_implies_ranking:
  "(reachable e d iterations s h last_action \<longrightarrow> final_report s \<noteq> [] \<longrightarrow> ranked_repos s \<noteq> [])
   \<and> (agent_loop e 0 (initial_state d) [] JNull = (ex, s', h', la') \<longrightarrow>
        (final_report s' \<noteq> [] \<longrightarrow> ranked_repos s' \<noteq> [])
        \<and> (finalize_report (tools_at e 0) s' = Inr s'' \<longrightarrow>
              (final_report s'' \<noteq> [] \<longrightarrow> ranked_repos s'' \<noteq> [])
              \<and> (final_report s'' \<noteq> final_report s' \<longrightarrow> ranked_repos s' \<noteq> [])))"
proof (intro conjI impI)
  assume "reachable e d iterations s h last_action" "final_report s \<noteq> []"
  then show "ranked_repos s \<noteq> []" using reachable_invariant by blast
next
  assume a: "agent_loop e 0 (initial_state d) [] JNull = (ex, s', h', la')"
  from agent_loop_reachable [OF a reach_start] obtain n where "reachable e d n s' h' la'" ..
  then have inv: "final_report s' \<noteq> [] \<longrightarrow> ranked_repos s' \<noteq> []" by (rule reachable_invariant)
  then show "ranked_repos s' \<noteq> []" if "final_report s' \<noteq> []" using that by simp
  assume f: "finalize_report (tools_at e 0) s' = Inr s''"
  from finalize_report_invariant [OF inv f]
  show "ranked_repos s'' \<noteq> []" if "final_report s'' \<noteq> []" using that by simp
  from f show "ranked_repos s' \<noteq> []" if "final_report s'' \<noteq> final_report s'"
    using that by (auto simp: finalize_report_def split: if_splits option.splits)
qed

theorem report_implies_ranking_witness:
  "final_report (fst (snd (agent_loop fixture_env_offline 0 (initial_state ''containerization'') [] JNull)))
     \<noteq> []
   \<and> ranked_repos (fst (snd (agent_loop fixture_env_offline 0 (initial_state ''containerization'') [] JNull)))
     \<noteq> []"
proof -
  let ?X = "agent_loop fixture_env_offline 0 (initial_state ''containerization'') [] JNull"
  have x: "?X = (fst ?X, fst (snd ?X), fst (snd (snd ?X)), snd (snd (snd ?X)))" by simp
  have r: "final_report (fst (snd ?X)) \<noteq> []" by code_simp
  show ?thesis
    using report_implies_ranking [where e = fixture_env_offline and d = "''containerization''"
        and ex = "fst ?X" and s' = "fst (snd ?X)" and h' = "fst (snd (snd ?X))"
        and la' = "snd (snd (snd ?X))"] x r
    by blast
qed

section \<open>The value returned by \<open>run\<close>\<close>

text \<open>
  C1 at a failing input. The model cannot be reached and the GitHub search finds
  nothing: the fallback generates keywords, then searches nine times in vain, the
  loop runs out, no report is stored and none is synthesised, and \<open>run\<close> returns the
  stored \<open>final_report\<close>, the empty string, instead of the message that nothing was
  found.
\<close>

theorem run_returns_empty_report:
  "fst (agent_loop fixture_env_nothing_found 0 (initial_state ''containerization'') [] JNull) = Exhausted
   \<and> run fixture_env_nothing_found ''containerization'' = []"
  by code_simp

end
